theory Spec2Isabelle
  imports Main "HOL-Library.AList" "HOL-Library.Sublist"
begin

section \<open>Text, characters and Python helpers\<close>

text \<open>
  The program (\<^verbatim>\<open>symsift.py\<close>) reads three text dumps and works on Python strings.
  A string is modelled as a \<^typ>\<open>string\<close>; a character is one of the 256 values of
  \<^typ>\<open>char\<close>, read as a Latin-1 code point. The character classes below are the
  ones Python's \<^verbatim>\<open>re\<close> module and \<^verbatim>\<open>str.strip\<close> use for
  \<^verbatim>\<open>str\<close> patterns, restricted to that range.
\<close>

definition isspace :: "char \<Rightarrow> bool" where
  "isspace c = (let n = of_char c :: nat in
     (9 \<le> n \<and> n \<le> 13) \<or> (28 \<le> n \<and> n \<le> 32) \<or> n = 133 \<or> n = 160)"

definition isdigit :: "char \<Rightarrow> bool" where
  "isdigit c = (let n = of_char c :: nat in 48 \<le> n \<and> n \<le> 57)"

definition isword :: "char \<Rightarrow> bool" where
  "isword c = (let n = of_char c :: nat in
     (48 \<le> n \<and> n \<le> 57) \<or> (65 \<le> n \<and> n \<le> 90) \<or> n = 95 \<or> (97 \<le> n \<and> n \<le> 122)
     \<or> n = 170 \<or> n = 178 \<or> n = 179 \<or> n = 181 \<or> n = 185 \<or> n = 186
     \<or> (188 \<le> n \<and> n \<le> 190) \<or> (192 \<le> n \<and> n \<le> 214)
     \<or> (216 \<le> n \<and> n \<le> 246) \<or> 248 \<le> n)"

definition in_range :: "char \<Rightarrow> char \<Rightarrow> char \<Rightarrow> bool" where
  "in_range lo hi c = ((of_char lo :: nat) \<le> of_char c \<and> (of_char c :: nat) \<le> of_char hi)"

definition any_char :: "char \<Rightarrow> bool" where
  "any_char c = True"

definition not_newline :: "char \<Rightarrow> bool" where
  "not_newline c = (c \<noteq> CHR 0x0A)"

text \<open>\<^verbatim>\<open>str.strip()\<close>: leading and trailing whitespace removed.\<close>

definition strip :: "string \<Rightarrow> string" where
  "strip s = rev (dropWhile isspace (rev (dropWhile isspace s)))"

text \<open>\<^verbatim>\<open>sub in s\<close> on strings.\<close>

fun contains :: "string \<Rightarrow> string \<Rightarrow> bool" where
  "contains sub [] = (sub = [])"
| "contains sub (c # cs) = (prefix sub (c # cs) \<or> contains sub cs)"

text \<open>\<^verbatim>\<open>s.split(":")\<close> for a one-character separator.\<close>

fun split_on :: "char \<Rightarrow> string \<Rightarrow> string list" where
  "split_on sep [] = [[]]"
| "split_on sep (c # cs) =
     (if c = sep then [] # split_on sep cs
      else (case split_on sep cs of [] \<Rightarrow> [[c]] | w # ws \<Rightarrow> (c # w) # ws))"

text \<open>
  The lines of a text file as iteration over the file object and \<^verbatim>\<open>readline\<close>
  deliver them: every line keeps its terminating newline, the last line may lack one, and
  no line is empty.
\<close>

fun file_lines :: "string \<Rightarrow> string list" where
  "file_lines [] = []"
| "file_lines (c # cs) =
     (if c = CHR 0x0A then [c] # file_lines cs
      else (case file_lines cs of [] \<Rightarrow> [[c]] | l # ls \<Rightarrow> (c # l) # ls))"

text \<open>Every exception the modelled functions can raise.\<close>

datatype error = KeyError | ValueError | AttributeError | AssertionError

text \<open>
  \<^verbatim>\<open>int(s, base)\<close> for base 10 and 16: surrounding whitespace, an optional sign, for
  base 16 an optional \<^verbatim>\<open>0x\<close> prefix, then at least one digit. Python's integers are
  unbounded, so the value is an \<^typ>\<open>int\<close>. (Underscores between digits, which Python
  also accepts, cannot occur in any text the program converts and raise here.)
\<close>

definition digit_val :: "char \<Rightarrow> nat option" where
  "digit_val c =
     (if in_range CHR ''0'' CHR ''9'' c then Some (of_char c - 48)
      else if in_range CHR ''a'' CHR ''z'' c then Some (of_char c - 87)
      else if in_range CHR ''A'' CHR ''Z'' c then Some (of_char c - 55)
      else None)"

fun digits_val :: "nat \<Rightarrow> nat \<Rightarrow> string \<Rightarrow> nat option" where
  "digits_val base acc [] = Some acc"
| "digits_val base acc (c # cs) =
     (case digit_val c of
        None \<Rightarrow> None
      | Some d \<Rightarrow> if d < base then digits_val base (acc * base + d) cs else None)"

definition drop_sign :: "string \<Rightarrow> bool \<times> string" where
  "drop_sign s =
     (case s of
        [] \<Rightarrow> (False, [])
      | c # cs \<Rightarrow> if c = CHR ''-'' then (True, cs) else if c = CHR ''+'' then (False, cs) else (False, s))"

definition drop_prefix16 :: "nat \<Rightarrow> string \<Rightarrow> string" where
  "drop_prefix16 base s =
     (if base = 16 \<and> (prefix ''0x'' s \<or> prefix ''0X'' s) then drop 2 s else s)"

definition py_int :: "nat \<Rightarrow> string \<Rightarrow> error + int" where
  "py_int base s =
     (let (neg, body) = drop_sign (strip s);
          ds = drop_prefix16 base body
      in if ds = [] then Inl ValueError
         else (case digits_val base 0 ds of
                 None \<Rightarrow> Inl ValueError
               | Some n \<Rightarrow> Inr (if neg then - int n else int n)))"

section \<open>Regular expressions\<close>

text \<open>
  The patterns of the program are kept as data and run by one backtracking matcher, so
  that greedy and lazy repetition, captures and \<^verbatim>\<open>\b\<close> mean what they mean in
  Python. A matcher state is a position in the subject: the character before it,
  the text after it, its index, and the groups captured so far.
\<close>

datatype re =
    Eps
  | Lit char
  | Cls "char \<Rightarrow> bool"
  | Bol
  | WordB
  | Seq re re
  | Star "char \<Rightarrow> bool"
  | LazyStar "char \<Rightarrow> bool"
  | Grp nat re

record mstate =
  prev :: "char option"
  rest :: string
  pos :: nat
  caps :: "(nat \<times> string) list"

definition advance :: "mstate \<Rightarrow> char \<Rightarrow> string \<Rightarrow> mstate" where
  "advance st c cs = st\<lparr>prev := Some c, rest := cs, pos := pos st + 1\<rparr>"

definition at_boundary :: "mstate \<Rightarrow> bool" where
  "at_boundary st =
     ((case prev st of None \<Rightarrow> False | Some c \<Rightarrow> isword c)
      \<noteq> (case rest st of [] \<Rightarrow> False | c # _ \<Rightarrow> isword c))"

text \<open>
  What is left to match is a stack of frames: a pattern still to be matched, or the end
  of a group whose text began where the subject was still \<open>s0\<close>.
\<close>

datatype frame = M re | Close nat string

definition close_group :: "nat \<Rightarrow> string \<Rightarrow> mstate \<Rightarrow> mstate" where
  "close_group g s0 st =
     st\<lparr>caps := AList.update g (take (length s0 - length (rest st)) s0) (caps st)\<rparr>"

fun re_weight :: "re \<Rightarrow> nat" where
  "re_weight (Seq a b) = re_weight a + re_weight b + 2"
| "re_weight (Grp g r) = re_weight r + 2"
| "re_weight r = 1"

fun frame_weight :: "frame \<Rightarrow> nat" where
  "frame_weight (M r) = re_weight r"
| "frame_weight (Close g s0) = 1"

text \<open>
  \<open>rmatch k st\<close> is the match a backtracking matcher finds for the frames \<open>k\<close> from
  \<open>st\<close>, trying the alternatives in Python's order: a greedy repetition first takes one
  more character and gives it back only when the rest of the pattern fails, a lazy one
  first tries the rest of the pattern. Repetition is over a character class, which is
  all the program's patterns repeat.
\<close>

function rmatch :: "frame list \<Rightarrow> mstate \<Rightarrow> mstate option" where
  "rmatch [] st = Some st"
| "rmatch (Close g s0 # k) st = rmatch k (close_group g s0 st)"
| "rmatch (M Eps # k) st = rmatch k st"
| "rmatch (M (Lit a) # k) st =
     (case rest st of
        [] \<Rightarrow> None
      | c # cs \<Rightarrow> if c = a then rmatch k (advance st c cs) else None)"
| "rmatch (M (Cls P) # k) st =
     (case rest st of
        [] \<Rightarrow> None
      | c # cs \<Rightarrow> if P c then rmatch k (advance st c cs) else None)"
| "rmatch (M Bol # k) st = (if pos st = 0 then rmatch k st else None)"
| "rmatch (M WordB # k) st = (if at_boundary st then rmatch k st else None)"
| "rmatch (M (Seq a b) # k) st = rmatch (M a # M b # k) st"
| "rmatch (M (Star P) # k) st =
     (case rest st of
        [] \<Rightarrow> rmatch k st
      | c # cs \<Rightarrow>
          if P c
          then (case rmatch (M (Star P) # k) (advance st c cs) of
                  Some m \<Rightarrow> Some m
                | None \<Rightarrow> rmatch k st)
          else rmatch k st)"
| "rmatch (M (LazyStar P) # k) st =
     (case rmatch k st of
        Some m \<Rightarrow> Some m
      | None \<Rightarrow>
          (case rest st of
             [] \<Rightarrow> None
           | c # cs \<Rightarrow> if P c then rmatch (M (LazyStar P) # k) (advance st c cs) else None))"
| "rmatch (M (Grp g r) # k) st = rmatch (M r # Close g (rest st) # k) st"
  by pat_completeness auto
termination
  by (relation "measures [\<lambda>(k, st). length (rest st), \<lambda>(k, st). sum_list (map frame_weight k)]")
     (auto simp: advance_def close_group_def)

definition Plus :: "(char \<Rightarrow> bool) \<Rightarrow> re" where
  "Plus P = Seq (Cls P) (Star P)"

definition LazyPlus :: "(char \<Rightarrow> bool) \<Rightarrow> re" where
  "LazyPlus P = Seq (Cls P) (LazyStar P)"

definition Seqs :: "re list \<Rightarrow> re" where
  "Seqs rs = foldr Seq rs Eps"

definition Str :: "string \<Rightarrow> re" where
  "Str s = Seqs (map Lit s)"

definition start_state :: "string \<Rightarrow> mstate" where
  "start_state s = \<lparr>prev = None, rest = s, pos = 0, caps = []\<rparr>"

text \<open>\<^verbatim>\<open>pattern.match(s)\<close>: a match that starts at the first character.\<close>

definition re_match :: "re \<Rightarrow> string \<Rightarrow> mstate option" where
  "re_match r s = rmatch [M r] (start_state s)"

text \<open>\<^verbatim>\<open>pattern.search(s)\<close>: the match at the leftmost start position that has one.\<close>

fun search_from :: "re \<Rightarrow> char option \<Rightarrow> string \<Rightarrow> nat \<Rightarrow> mstate option" where
  "search_from r p [] n = rmatch [M r] \<lparr>prev = p, rest = [], pos = n, caps = []\<rparr>"
| "search_from r p (c # cs) n =
     (case rmatch [M r] \<lparr>prev = p, rest = c # cs, pos = n, caps = []\<rparr> of
        None \<Rightarrow> search_from r (Some c) cs (Suc n)
      | Some m \<Rightarrow> Some m)"

definition re_search :: "re \<Rightarrow> string \<Rightarrow> mstate option" where
  "re_search r s = search_from r None s 0"

text \<open>
  \<^verbatim>\<open>m.group(k)\<close>. Every group of every pattern below takes part in every match of
  its pattern, so Python's \<^verbatim>\<open>None\<close> for a group that did not take part has no
  counterpart; the empty string stands in for it.
\<close>

definition group :: "mstate \<Rightarrow> nat \<Rightarrow> string" where
  "group m k = (case map_of (caps m) k of None \<Rightarrow> [] | Some s \<Rightarrow> s)"

text \<open>
  \<^verbatim>\<open>pattern.findall(s)\<close>: the non-overlapping matches from left to right, each search
  resuming where the previous match ended. The one pattern used with it cannot match the
  empty string; the scan stops should a match consume nothing.
\<close>

function findall_from :: "re \<Rightarrow> char option \<Rightarrow> string \<Rightarrow> nat \<Rightarrow> mstate list" where
  "findall_from r p s n =
     (case search_from r p s n of
        None \<Rightarrow> []
      | Some m \<Rightarrow>
          m # (if length (rest m) < length s
               then findall_from r (prev m) (rest m) (pos m) else []))"
  by pat_completeness auto
termination
  by (relation "measure (\<lambda>(r, p, s, n). length s)") auto

definition re_findall :: "re \<Rightarrow> string \<Rightarrow> mstate list" where
  "re_findall r s = findall_from r None s 0"

section \<open>The patterns of the program\<close>

definition hexdigit_lower_upper :: "char \<Rightarrow> bool" where
  "hexdigit_lower_upper c =
     (isdigit c \<or> in_range CHR ''a'' CHR ''f'' c \<or> in_range CHR ''A'' CHR ''F'' c)"

text \<open>The class \<^verbatim>\<open>[0-9-A-Fx]\<close>: a digit, a minus sign, \<^verbatim>\<open>A\<close> to \<^verbatim>\<open>F\<close>, or \<^verbatim>\<open>x\<close>.\<close>

definition type_ref_char :: "char \<Rightarrow> bool" where
  "type_ref_char c =
     (in_range CHR ''0'' CHR ''9'' c \<or> c = CHR ''-'' \<or> in_range CHR ''A'' CHR ''F'' c \<or> c = CHR ''x'')"

definition ascii_digit :: "char \<Rightarrow> bool" where
  "ascii_digit c = in_range CHR ''0'' CHR ''9'' c"

text \<open>\<^verbatim>\<open>^\s*(0x[\da-fA-F]+)\s*\|\s*(LF_\w+)\<close>\<close>

definition g_type_header_regexp :: re where
  "g_type_header_regexp =
     Seqs [Bol, Star isspace,
           Grp 1 (Seqs [Str ''0x'', Plus hexdigit_lower_upper]),
           Star isspace, Lit CHR ''|'', Star isspace,
           Grp 2 (Seqs [Str ''LF_'', Plus isword])]"

text \<open>\<^verbatim>\<open>forward ref \(-> ([0-9-A-Fx]+)\)\<close>\<close>

definition g_fwd_ref_regexp :: re where
  "g_fwd_ref_regexp =
     Seqs [Str ''forward ref (-> '', Grp 1 (Plus type_ref_char), Lit CHR '')'']"

text \<open>\<^verbatim>\<open>\boptions:.*\bscoped\b\<close>, where the dot also matches a newline\<close>

definition g_scoped_regexp :: re where
  "g_scoped_regexp =
     Seqs [WordB, Str ''options:'', Star any_char, WordB, Str ''scoped'', WordB]"

text \<open>\<^verbatim>\<open>LF_.*\s+\[size\s*=\s*[0-9]+\s*]\s+`(.+?)`\n\<close>, where the dot also matches a newline\<close>

definition g_class_name_regexp :: re where
  "g_class_name_regexp =
     Seqs [Str ''LF_'', Star any_char, Plus isspace, Str ''[size'',
           Star isspace, Lit CHR ''='', Star isspace, Plus ascii_digit,
           Star isspace, Lit CHR '']'', Plus isspace, Lit CHR 0x60,
           Grp 1 (LazyPlus any_char), Lit CHR 0x60, Lit CHR 0x0A]"

text \<open>\<^verbatim>\<open>field list: ([0-9-A-Fx]+)\<close>\<close>

definition g_field_list_regexp :: re where
  "g_field_list_regexp = Seqs [Str ''field list: '', Grp 1 (Plus type_ref_char)]"

text \<open>\<^verbatim>\<open>unique name:\s`(.+?)`\n\<close>, where the dot also matches a newline\<close>

definition g_unique_name_regexp :: re where
  "g_unique_name_regexp =
     Seqs [Str ''unique name:'', Cls isspace, Lit CHR 0x60,
           Grp 1 (LazyPlus any_char), Lit CHR 0x60, Lit CHR 0x0A]"

text \<open>\<^verbatim>\<open>sizeof ([0-9]+)\<close>\<close>

definition g_sizeof_regexp :: re where
  "g_sizeof_regexp = Seqs [Str ''sizeof '', Grp 1 (Plus ascii_digit)]"

text \<open>\<^verbatim>\<open>(\d+)\s+\|\s+S_GDATA32\s+\[.*\]\s+`(.+)(?:::`vftable\')\<close>, where the dot matches
  no newline\<close>

definition g_GDATA32_regexp :: re where
  "g_GDATA32_regexp =
     Seqs [Grp 1 (Plus isdigit), Plus isspace, Lit CHR ''|'', Plus isspace,
           Str ''S_GDATA32'', Plus isspace, Lit CHR ''['', Star not_newline,
           Lit CHR '']'', Plus isspace, Lit CHR 0x60,
           Grp 2 (Plus not_newline),
           Str [CHR '':'', CHR '':'', CHR 0x60, CHR ''v'', CHR ''f'', CHR ''t'', CHR ''a'',
                CHR ''b'', CHR ''l'', CHR ''e'', CHR 0x27]]"

text \<open>\<^verbatim>\<open>addr\s+=\s+(\d+:\d+)\<close>\<close>

definition g_addr_regexp :: re where
  "g_addr_regexp =
     Seqs [Str ''addr'', Plus isspace, Lit CHR ''='', Plus isspace,
           Grp 1 (Seqs [Plus isdigit, Lit CHR '':'', Plus isdigit])]"

text \<open>\<^verbatim>\<open>SECTION HEADER #(\d+).*?([A-Fa-f0-9]+) virtual address\<close>, where the dot also
  matches a newline (the local \<^verbatim>\<open>pattern\<close> of \<^verbatim>\<open>generate_section2rva\<close>)\<close>

definition section_pattern :: re where
  "section_pattern =
     Seqs [Str ''SECTION HEADER #'', Grp 1 (Plus isdigit), LazyStar any_char,
           Grp 2 (Plus hexdigit_lower_upper), Str '' virtual address'']"

definition g_wanted_types :: "string list" where
  "g_wanted_types = [''LF_CLASS'', ''LF_STRUCTURE'', ''LF_FIELDLIST'']"

section \<open>The catalog\<close>

text \<open>
  The catalog \<^verbatim>\<open>types_with_vftable\<close> is a Python dictionary from a type's display
  name to a list. The program builds such a list in two places only: the one-element list
  \<^verbatim>\<open>[rva]\<close> in \<^verbatim>\<open>get_types_with_vftable\<close> and the five-element list
  \<^verbatim>\<open>[rva, type_index, field_list_index, unique_type_name, sizeof]\<close> in
  \<^verbatim>\<open>process_class\<close>. A list value is one of these two shapes; \<open>len\<close>,
  \<open>elem0\<close> and \<open>elem_last\<close> are \<^verbatim>\<open>len(elem)\<close>, \<^verbatim>\<open>elem[0]\<close> and
  \<^verbatim>\<open>elem[-1]\<close>.

  A dictionary is an association list in insertion order: \<^const>\<open>map_of\<close> looks a key
  up, \<^const>\<open>AList.update\<close> assigns (in place for a key that is present, at the end for
  a new one) and \<^const>\<open>AList.delete\<close> is \<^verbatim>\<open>del\<close> guarded by \<^verbatim>\<open>in\<close>.
\<close>

datatype details =
    Vft int
  | Full int int int string int

fun len :: "details \<Rightarrow> nat" where
  "len (Vft rva) = 1"
| "len (Full rva type_index field_list_index unique_type_name sizeof) = 5"

fun elem0 :: "details \<Rightarrow> int" where
  "elem0 (Vft rva) = rva"
| "elem0 (Full rva type_index field_list_index unique_type_name sizeof) = rva"

fun elem_last :: "details \<Rightarrow> int" where
  "elem_last (Vft rva) = rva"
| "elem_last (Full rva type_index field_list_index unique_type_name sizeof) = sizeof"

type_synonym catalog = "(string \<times> details) list"

type_synonym fwd_map = "(int \<times> int) list"

type_synonym positions = "(int \<times> int) list"

type_synonym section_table = "(int \<times> int) list"

section \<open>The section address resolver\<close>

text \<open>
  \<^verbatim>\<open>generate_section2rva\<close>: every match of the pattern in the whole text assigns
  \<^verbatim>\<open>section_data[int(section_number)] = int(virtual_address, 16)\<close>, in order.
\<close>

fun section_loop :: "mstate list \<Rightarrow> section_table \<Rightarrow> error + section_table" where
  "section_loop [] section_data = Inr section_data"
| "section_loop (m # ms) section_data =
     (case py_int 10 (group m 1) of
        Inl e \<Rightarrow> Inl e
      | Inr section_number \<Rightarrow>
          (case py_int 16 (group m 2) of
             Inl e \<Rightarrow> Inl e
           | Inr virtual_address \<Rightarrow>
               section_loop ms (AList.update section_number virtual_address section_data)))"

definition generate_section2rva :: "string \<Rightarrow> error + section_table" where
  "generate_section2rva file_content = section_loop (re_findall section_pattern file_content) []"

section \<open>The vftable symbol extractor\<close>

text \<open>
  The two integers of \<^verbatim>\<open>[ int(x) for x in addr.split(":") ]\<close>, unpacked into
  \<^verbatim>\<open>section, offset\<close>. A failed conversion and unpacking anything but two values
  both raise \<^verbatim>\<open>ValueError\<close>.
\<close>

definition parse_addr :: "string \<Rightarrow> error + (int \<times> int)" where
  "parse_addr addr =
     (case split_on CHR '':'' addr of
        [a, b] \<Rightarrow>
          (case py_int 10 a of
             Inl e \<Rightarrow> Inl e
           | Inr section \<Rightarrow>
               (case py_int 10 b of Inl e \<Rightarrow> Inl e | Inr offset \<Rightarrow> Inr (section, offset)))
      | _ \<Rightarrow> Inl ValueError)"

text \<open>
  The loop of \<^verbatim>\<open>get_types_with_vftable\<close> over the lines of the globals dump, with
  its three variables \<open>out_types\<close>, \<open>max_width\<close> and \<open>line1\<close>. A section that the
  table lacks raises \<^verbatim>\<open>KeyError\<close> out of the function.
\<close>

fun vftable_loop ::
  "section_table \<Rightarrow> string list \<Rightarrow> catalog \<Rightarrow> int \<Rightarrow> string \<Rightarrow> error + (catalog \<times> int)" where
  "vftable_loop in_section2rva [] out_types max_width line1 = Inr (out_types, max_width)"
| "vftable_loop in_section2rva (line2 # lines) out_types max_width line1 =
     (case re_match g_GDATA32_regexp line1 of
        None \<Rightarrow> vftable_loop in_section2rva lines out_types max_width (strip line2)
      | Some m1 \<Rightarrow>
          (case re_search g_addr_regexp (strip line2) of
             None \<Rightarrow> vftable_loop in_section2rva lines out_types max_width (strip line2)
           | Some m2 \<Rightarrow>
               (case parse_addr (group m2 1) of
                  Inl e \<Rightarrow> Inl e
                | Inr (section, offset) \<Rightarrow>
                    (case map_of in_section2rva section of
                       None \<Rightarrow> Inl KeyError
                     | Some section_rva \<Rightarrow>
                         vftable_loop in_section2rva lines
                           (AList.update (group m1 2) (Vft (section_rva + offset)) out_types)
                           (max max_width (int (length (group m1 2))))
                           (strip line2)))))"

definition get_types_with_vftable :: "string \<Rightarrow> section_table \<Rightarrow> error + (catalog \<times> int)" where
  "get_types_with_vftable globals_text in_section2rva =
     vftable_loop in_section2rva (file_lines globals_text) [] (- 1) []"

section \<open>The classifier and merger\<close>

text \<open>
  \<^verbatim>\<open>process_class\<close>. It changes the two dictionaries \<open>_fwd\<close> and
  \<open>_inout_types\<close>, returned here; every assignment is the last thing done on its
  path, so a raised exception leaves both as they were. The \<^verbatim>\<open>assert\<close> statement
  is taken as enabled, as it is unless the interpreter is told to optimise; a missing
  \<^verbatim>\<open>sizeof\<close> field makes \<^verbatim>\<open>m.group\<close> fail on \<^verbatim>\<open>None\<close>.
\<close>

definition process_class ::
  "string \<Rightarrow> int \<Rightarrow> fwd_map \<Rightarrow> positions \<Rightarrow> catalog \<Rightarrow> error + (fwd_map \<times> catalog)" where
  "process_class content type_index fwd type_positions inout_types =
     (case re_search g_fwd_ref_regexp content of
        Some m \<Rightarrow>
          (case py_int 16 (group m 1) of
             Inl e \<Rightarrow> Inl e
           | Inr fwd_type \<Rightarrow> Inr (AList.update type_index fwd_type fwd, inout_types))
      | None \<Rightarrow>
          (case re_search g_class_name_regexp content of
             None \<Rightarrow> Inr (fwd, inout_types)
           | Some m \<Rightarrow>
               let type_name = group m 1 in
               if re_search g_scoped_regexp content \<noteq> None
               then Inr (fwd, AList.delete type_name inout_types)
               else if contains ''<unnamed-'' type_name
               then Inr (fwd, inout_types)
               else
                 (case re_search g_unique_name_regexp content of
                    None \<Rightarrow> Inr (fwd, inout_types)
                  | Some mu \<Rightarrow>
                      (case re_search g_field_list_regexp content of
                         None \<Rightarrow> Inr (fwd, inout_types)
                       | Some mf \<Rightarrow>
                           (case py_int 16 (group mf 1) of
                              Inl e \<Rightarrow> Inl e
                            | Inr field_list_index \<Rightarrow>
                                (case re_search g_sizeof_regexp content of
                                   None \<Rightarrow> Inl AttributeError
                                 | Some ms \<Rightarrow>
                                     (case py_int 10 (group ms 1) of
                                        Inl e \<Rightarrow> Inl e
                                      | Inr sizeof \<Rightarrow>
                                          (case map_of inout_types type_name of
                                             None \<Rightarrow>
                                               Inr (fwd, AList.update type_name
                                                 (Full 0 type_index field_list_index (group mu 1) sizeof)
                                                 inout_types)
                                           | Some elem \<Rightarrow>
                                               if len elem = 1 \<or> elem_last elem = sizeof
                                               then Inr (fwd, AList.update type_name
                                                 (Full (elem0 elem) type_index field_list_index
                                                    (group mu 1) sizeof)
                                                 inout_types)
                                               else Inl AssertionError))))))))"

text \<open>\<^verbatim>\<open>process_fieldlist\<close> is \<^verbatim>\<open>pass\<close>.\<close>

definition process_fieldlist ::
  "string \<Rightarrow> int \<Rightarrow> fwd_map \<Rightarrow> positions \<Rightarrow> catalog \<Rightarrow> error + (fwd_map \<times> catalog)" where
  "process_fieldlist content type_index fwd type_positions inout_types = Inr (fwd, inout_types)"

text \<open>
  \<^verbatim>\<open>process_current_type\<close>. The position of a wanted record is stored before the
  record is processed, so it is returned also when processing raises.
\<close>

definition process_current_type ::
  "string \<Rightarrow> fwd_map \<Rightarrow> positions \<Rightarrow> catalog \<Rightarrow> int
     \<Rightarrow> positions \<times> (error + (fwd_map \<times> catalog))" where
  "process_current_type content fwd type_positions inout_types pos_arg =
     (case re_search g_type_header_regexp content of
        None \<Rightarrow> (type_positions, Inr (fwd, inout_types))
      | Some m \<Rightarrow>
          (case py_int 16 (group m 1) of
             Inl e \<Rightarrow> (type_positions, Inl e)
           | Inr type_idx \<Rightarrow>
               let leaf_type_name = group m 2;
                   type_positions' =
                     (if leaf_type_name \<in> set g_wanted_types
                      then AList.update type_idx pos_arg type_positions else type_positions)
               in if leaf_type_name = ''LF_CLASS'' \<or> leaf_type_name = ''LF_STRUCTURE''
                  then (type_positions', process_class content type_idx fwd type_positions' inout_types)
                  else if leaf_type_name = ''LF_FIELDLIST''
                  then (type_positions', process_fieldlist content type_idx fwd type_positions' inout_types)
                  else (type_positions', Inr (fwd, inout_types))))"

section \<open>The type record stream reader\<close>

text \<open>
  The variables of \<^verbatim>\<open>fill_types_info\<close>, the catalog it updates, and the exceptions
  its \<^verbatim>\<open>except\<close> clause caught and printed, in order.
\<close>

record reader =
  type_positions :: positions
  fwrd :: fwd_map
  content :: string
  content_pos :: int
  types :: catalog
  printed :: "error list"

text \<open>
  One turn of the \<^verbatim>\<open>while\<close> loop on the line \<open>line\<close> read at file position
  \<open>p\<close>. The buffer is replaced by the header line only inside \<^verbatim>\<open>if content:\<close> and
  only after \<^verbatim>\<open>process_current_type\<close> returned; an exception skips the two
  assignments and is printed.
\<close>

definition reader_step :: "reader \<Rightarrow> int \<Rightarrow> string \<Rightarrow> reader" where
  "reader_step st p line =
     (case re_search g_type_header_regexp line of
        Some m \<Rightarrow>
          if content st \<noteq> []
          then (case process_current_type (content st) (fwrd st) (type_positions st) (types st)
                       (content_pos st) of
                  (tp, Inl e) \<Rightarrow> st\<lparr>type_positions := tp, printed := printed st @ [e]\<rparr>
                | (tp, Inr (fw, ts)) \<Rightarrow>
                    st\<lparr>type_positions := tp, fwrd := fw, types := ts,
                       content := line, content_pos := p\<rparr>)
          else st
      | None \<Rightarrow> st\<lparr>content := content st @ line\<rparr>)"

text \<open>
  The loop: \<^verbatim>\<open>f.tell()\<close> before each \<^verbatim>\<open>readline\<close> is the number of characters
  read so far (the byte offset in a file of one-byte characters and plain newlines). The
  positions are stored and never read again.
\<close>

fun reader_loop :: "reader \<Rightarrow> int \<Rightarrow> string list \<Rightarrow> reader" where
  "reader_loop st p [] = st"
| "reader_loop st p (line # lines) =
     reader_loop (reader_step st p line) (p + int (length line)) lines"

definition reader_init :: "catalog \<Rightarrow> reader" where
  "reader_init inout_types =
     \<lparr>type_positions = [], fwrd = [], content = [], content_pos = - 1,
      types = inout_types, printed = []\<rparr>"

definition fill_types_info :: "string \<Rightarrow> catalog \<Rightarrow> reader" where
  "fill_types_info types_text inout_types =
     reader_loop (reader_init inout_types) 0 (file_lines types_text)"

section \<open>The catalog partitioner and the whole run\<close>

text \<open>The three dictionaries filled by the loop over \<^verbatim>\<open>types_with_vftable.items()\<close>.\<close>

record partition =
  detailed_types :: catalog
  virtual_detailed_types :: catalog
  unexpanded_types :: catalog

fun partition_loop :: "catalog \<Rightarrow> partition \<Rightarrow> partition" where
  "partition_loop [] pt = pt"
| "partition_loop ((type_name, details) # items) pt =
     partition_loop items
       (if len details > 1
        then (if elem0 details > 0
              then pt\<lparr>virtual_detailed_types :=
                        AList.update type_name details (virtual_detailed_types pt)\<rparr>
              else pt\<lparr>detailed_types := AList.update type_name details (detailed_types pt)\<rparr>)
        else if len details = 1
        then pt\<lparr>unexpanded_types := AList.update type_name details (unexpanded_types pt)\<rparr>
        else pt)"

definition partition_types :: "catalog \<Rightarrow> partition" where
  "partition_types types_with_vftable =
     partition_loop types_with_vftable
       \<lparr>detailed_types = [], virtual_detailed_types = [], unexpanded_types = []\<rparr>"

text \<open>
  The main program from the section table to the partition, on the texts of the section
  dump, the globals dump and the types dump. An exception outside
  \<^verbatim>\<open>fill_types_info\<close> is caught nowhere and ends the run.
\<close>

definition run :: "string \<Rightarrow> string \<Rightarrow> string \<Rightarrow> error + (reader \<times> partition)" where
  "run sections_text globals_text types_text =
     (case generate_section2rva sections_text of
        Inl e \<Rightarrow> Inl e
      | Inr section2rva \<Rightarrow>
          (case get_types_with_vftable globals_text section2rva of
             Inl e \<Rightarrow> Inl e
           | Inr (types_with_vftable, max_name_width) \<Rightarrow>
               let r = fill_types_info types_text types_with_vftable
               in Inr (r, partition_types (types r))))"

section \<open>Inputs of the scenarios\<close>

text \<open>
  Small dumps in the format the three parsers read. A section dump with one section at
  \<^verbatim>\<open>0x1000\<close>, and one whose first block has no virtual address.
\<close>

definition sections_text :: string where
  "sections_text =
     ''SECTION HEADER #1\<newline>'' @
     ''    1000 virtual address\<newline>''"

definition sections_gap_text :: string where
  "sections_gap_text =
     ''SECTION HEADER #1\<newline>'' @
     ''SECTION HEADER #2\<newline>'' @
     ''    2000 virtual address\<newline>''"

text \<open>
  Global-symbol dumps: the vftable symbol of \<^verbatim>\<open>Foo\<close> followed by its address
  line, with the offset \<^verbatim>\<open>0x20\<close> written in decimal, written in hexadecimal,
  in a section the table lacks, followed by a pair for \<^verbatim>\<open>Bar\<close>, and followed by a
  second pair for \<^verbatim>\<open>Foo\<close> and a pair for \<^verbatim>\<open>Bar\<close>.
\<close>

definition foo_symbol :: string where
  "foo_symbol = ''  12 | S_GDATA32 [size = 40] `Foo::`vftable'' @ [CHR 0x27] @ ''`\<newline>''"

definition bar_symbol :: string where
  "bar_symbol = ''  13 | S_GDATA32 [size = 40] `Bar::`vftable'' @ [CHR 0x27] @ ''`\<newline>''"

definition addr_line_32 :: string where
  "addr_line_32 = ''       type = 0x1234, addr = 1:32\<newline>''"

definition addr_line_48 :: string where
  "addr_line_48 = ''       type = 0x1234, addr = 1:48\<newline>''"

definition addr_line_64 :: string where
  "addr_line_64 = ''       type = 0x1235, addr = 1:64\<newline>''"

definition addr_line_hex :: string where
  "addr_line_hex = ''       type = 0x1234, addr = 1:0x20\<newline>''"

definition addr_line_section2 :: string where
  "addr_line_section2 = ''       type = 0x1234, addr = 2:32\<newline>''"

definition globals_text :: string where
  "globals_text = foo_symbol @ addr_line_32"

definition globals_hex_text :: string where
  "globals_hex_text = foo_symbol @ addr_line_hex"

definition globals_section2_text :: string where
  "globals_section2_text = foo_symbol @ addr_line_section2"

definition globals_foo_bar_text :: string where
  "globals_foo_bar_text = foo_symbol @ addr_line_32 @ bar_symbol @ addr_line_64"

definition globals_three_text :: string where
  "globals_three_text =
     foo_symbol @ addr_line_32 @ foo_symbol @ addr_line_48 @ bar_symbol @ addr_line_64"

text \<open>
  Type records: the structure \<^verbatim>\<open>Foo\<close> of size 16, a second definition of
  \<^verbatim>\<open>Foo\<close> of size 24, a structure \<^verbatim>\<open>Baz\<close> without a vftable, a scoped
  \<^verbatim>\<open>Foo\<close>, a forward declaration of \<^verbatim>\<open>Foo\<close>, and a forward declaration
  that is also scoped.
\<close>

definition foo_record :: string where
  "foo_record =
     ''0x1001 | LF_STRUCTURE [size = 40] `Foo`\<newline>'' @
     ''  unique name: `.?AUFoo@@`\<newline>'' @
     ''  vtable: <no type>, base list: <no type>, field list: 0x5\<newline>'' @
     ''  options: has unique name, sizeof 16\<newline>''"

definition foo_record_24 :: string where
  "foo_record_24 =
     ''0x1003 | LF_STRUCTURE [size = 40] `Foo`\<newline>'' @
     ''  unique name: `.?AUFoo@@`\<newline>'' @
     ''  vtable: <no type>, base list: <no type>, field list: 0x7\<newline>'' @
     ''  options: has unique name, sizeof 24\<newline>''"

definition baz_record :: string where
  "baz_record =
     ''0x1005 | LF_STRUCTURE [size = 40] `Baz`\<newline>'' @
     ''  unique name: `.?AUBaz@@`\<newline>'' @
     ''  vtable: <no type>, base list: <no type>, field list: 0x9\<newline>'' @
     ''  options: has unique name, sizeof 8\<newline>''"

definition scoped_record :: string where
  "scoped_record =
     ''0x1006 | LF_STRUCTURE [size = 40] `Foo`\<newline>'' @
     ''  unique name: `.?AUFoo@@`\<newline>'' @
     ''  vtable: <no type>, base list: <no type>, field list: 0x5\<newline>'' @
     ''  options: has unique name | scoped, sizeof 16\<newline>''"

definition forward_record :: string where
  "forward_record =
     ''0x1007 | LF_STRUCTURE [size = 40] `Foo`\<newline>'' @
     ''  unique name: `.?AUFoo@@`\<newline>'' @
     ''  vtable: <no type>, base list: <no type>, field list: <no type>\<newline>'' @
     ''  options: forward ref (-> 0x1001) | has unique name, sizeof 0\<newline>''"

definition forward_scoped_record :: string where
  "forward_scoped_record =
     ''0x1008 | LF_STRUCTURE [size = 40] `Foo`\<newline>'' @
     ''  unique name: `.?AUFoo@@`\<newline>'' @
     ''  vtable: <no type>, base list: <no type>, field list: <no type>\<newline>'' @
     ''  options: forward ref (-> 0x1001) | has unique name | scoped, sizeof 0\<newline>''"

text \<open>
  Type dumps: the banner line the dump tool prints first, the header line of a record of
  another kind, and the streams built from them.
\<close>

definition banner :: string where
  "banner = ''Types (TPI Stream)\<newline>''"

definition pointer_header :: string where
  "pointer_header = ''0x1002 | LF_POINTER [size = 12]\<newline>''"

definition types_text :: string where
  "types_text = banner @ foo_record @ pointer_header"

definition types_no_banner_text :: string where
  "types_no_banner_text = foo_record @ pointer_header"

definition types_conflict_text :: string where
  "types_conflict_text = banner @ foo_record @ foo_record_24 @ pointer_header"

definition types_foo_baz_text :: string where
  "types_foo_baz_text = banner @ foo_record @ baz_record @ pointer_header"

definition types_conflict_baz_text :: string where
  "types_conflict_baz_text = banner @ foo_record @ foo_record_24 @ baz_record @ pointer_header"

section \<open>Evaluation of the character classes\<close>

text \<open>
  The character classes on the eight bits of a character, for evaluation of the patterns
  on concrete text.
\<close>

lemma isspace_code [code]:
  "isspace (Char b0 b1 b2 b3 b4 b5 b6 b7) =
     (if b7 then (\<not> b6 \<and> (if b5 then (\<not> b4 \<and> (\<not> b3 \<and> (\<not> b2 \<and> (\<not> b1 \<and> \<not> b0)))) else (\<not> b4 \<and> (\<not> b3 \<and> (b2 \<and> (\<not> b1 \<and> b0)))))) else (\<not> b6 \<and> (if b5 then (\<not> b4 \<and> (\<not> b3 \<and> (\<not> b2 \<and> (\<not> b1 \<and> \<not> b0)))) else (if b4 then (b3 \<and> b2) else (b3 \<and> (if b2 then \<not> b1 else (b1 \<or> b0)))))))"
  by (cases b0; cases b1; cases b2; cases b3; cases b4; cases b5; cases b6; cases b7;
      simp add: isspace_def in_range_def)

lemma isdigit_code [code]:
  "isdigit (Char b0 b1 b2 b3 b4 b5 b6 b7) =
     (\<not> b7 \<and> (\<not> b6 \<and> (b5 \<and> (b4 \<and> (\<not> b3 \<or> (\<not> b2 \<and> \<not> b1))))))"
  by (cases b0; cases b1; cases b2; cases b3; cases b4; cases b5; cases b6; cases b7;
      simp add: isdigit_def in_range_def)

lemma ascii_digit_code [code]:
  "ascii_digit (Char b0 b1 b2 b3 b4 b5 b6 b7) =
     (\<not> b7 \<and> (\<not> b6 \<and> (b5 \<and> (b4 \<and> (\<not> b3 \<or> (\<not> b2 \<and> \<not> b1))))))"
  by (cases b0; cases b1; cases b2; cases b3; cases b4; cases b5; cases b6; cases b7;
      simp add: ascii_digit_def isdigit_def in_range_def)

lemma isword_code [code]:
  "isword (Char b0 b1 b2 b3 b4 b5 b6 b7) =
     (if b7 then (if b6 then (if b5 then (\<not> b4 \<or> (b3 \<or> (\<not> b2 \<or> (\<not> b1 \<or> \<not> b0)))) else (\<not> b4 \<or> (b3 \<or> (\<not> b2 \<or> (\<not> b1 \<or> \<not> b0))))) else (b5 \<and> (if b4 then (if b3 then (if b2 then (\<not> b1 \<or> \<not> b0) else (if b1 then \<not> b0 else b0)) else (if b2 then (\<not> b1 \<and> b0) else b1)) else (b3 \<and> (\<not> b2 \<and> (b1 \<and> \<not> b0)))))) else (if b6 then (if b5 then (if b4 then (\<not> b3 \<or> (\<not> b2 \<and> (\<not> b1 \<or> \<not> b0))) else (b3 \<or> (b2 \<or> (b1 \<or> b0)))) else (if b4 then (\<not> b3 \<or> (if b2 then (b1 \<and> b0) else (\<not> b1 \<or> \<not> b0))) else (b3 \<or> (b2 \<or> (b1 \<or> b0))))) else (b5 \<and> (b4 \<and> (\<not> b3 \<or> (\<not> b2 \<and> \<not> b1))))))"
  by (cases b0; cases b1; cases b2; cases b3; cases b4; cases b5; cases b6; cases b7;
      simp add: isword_def in_range_def)

lemma hexdigit_lower_upper_code [code]:
  "hexdigit_lower_upper (Char b0 b1 b2 b3 b4 b5 b6 b7) =
     (\<not> b7 \<and> (if b6 then (if b5 then (\<not> b4 \<and> (\<not> b3 \<and> (if b2 then (\<not> b1 \<or> \<not> b0) else (b1 \<or> b0)))) else (\<not> b4 \<and> (\<not> b3 \<and> (if b2 then (\<not> b1 \<or> \<not> b0) else (b1 \<or> b0))))) else (b5 \<and> (b4 \<and> (\<not> b3 \<or> (\<not> b2 \<and> \<not> b1))))))"
  by (cases b0; cases b1; cases b2; cases b3; cases b4; cases b5; cases b6; cases b7;
      simp add: hexdigit_lower_upper_def isdigit_def in_range_def)

lemma type_ref_char_code [code]:
  "type_ref_char (Char b0 b1 b2 b3 b4 b5 b6 b7) =
     (\<not> b7 \<and> (if b6 then (if b5 then (b4 \<and> (b3 \<and> (\<not> b2 \<and> (\<not> b1 \<and> \<not> b0)))) else (\<not> b4 \<and> (\<not> b3 \<and> (if b2 then (\<not> b1 \<or> \<not> b0) else (b1 \<or> b0))))) else (b5 \<and> (if b4 then (\<not> b3 \<or> (\<not> b2 \<and> \<not> b1)) else (b3 \<and> (b2 \<and> (\<not> b1 \<and> b0)))))))"
  by (cases b0; cases b1; cases b2; cases b3; cases b4; cases b5; cases b6; cases b7;
      simp add: type_ref_char_def isdigit_def in_range_def)

section \<open>The matcher: what a match of the address pattern captures\<close>

text \<open>
  A successful match passes through every frame of its stack, and a repetition consumes
  characters of its class only. So the group of the address pattern is two non-empty runs
  of digits around a colon, and its conversion never raises.
\<close>

lemma rmatch_Star_elim:
  assumes "rmatch (M (Star P) # k) st = Some m"
  obtains xs st' where "rest st = xs @ rest st'" and "\<forall>c\<in>set xs. P c"
    and "caps st' = caps st" and "rmatch k st' = Some m"
proof -
  have "\<exists>xs st'. rest st = xs @ rest st' \<and> (\<forall>c\<in>set xs. P c) \<and> caps st' = caps st
          \<and> rmatch k st' = Some m"
    using assms
  proof (induction "rest st" arbitrary: st)
    case Nil
    then have "rmatch k st = Some m" by simp
    with Nil show ?case by (intro exI[of _ "[]"] exI[of _ st]) simp
  next
    case (Cons c cs)
    note rest = Cons.hyps(2)[symmetric]
    show ?case
    proof (cases "P c \<and> rmatch (M (Star P) # k) (advance st c cs) \<noteq> None")
      case True
      with Cons.prems rest have "rmatch (M (Star P) # k) (advance st c cs) = Some m"
        by (auto split: option.splits)
      moreover have "cs = rest (advance st c cs)" by (simp add: advance_def)
      ultimately obtain xs st' where "rest (advance st c cs) = xs @ rest st'"
        and "\<forall>c\<in>set xs. P c" and "caps st' = caps (advance st c cs)"
        and "rmatch k st' = Some m"
        using Cons.hyps(1) by blast
      with True rest show ?thesis
        by (intro exI[of _ "c # xs"] exI[of _ st']) (simp add: advance_def)
    next
      case False
      with Cons.prems rest have "rmatch k st = Some m"
        by (auto split: option.splits if_splits)
      then show ?thesis by (intro exI[of _ "[]"] exI[of _ st]) simp
    qed
  qed
  with that show thesis by blast
qed

lemma rmatch_LazyStar_through:
  assumes "rmatch (M (LazyStar P) # k) st = Some m"
  shows "\<exists>st'. rmatch k st' = Some m"
  using assms
proof (induction "rest st" arbitrary: st)
  case Nil
  then show ?case by (auto split: option.splits)
next
  case (Cons c cs)
  note rest = Cons.hyps(2)[symmetric]
  show ?case
  proof (cases "rmatch k st")
    case (Some m')
    with Cons.prems show ?thesis by auto
  next
    case None
    with Cons.prems rest have "rmatch (M (LazyStar P) # k) (advance st c cs) = Some m"
      by (auto split: if_splits)
    moreover have "cs = rest (advance st c cs)" by (simp add: advance_def)
    ultimately show ?thesis using Cons.hyps(1) by blast
  qed
qed

lemma rmatch_through:
  assumes "rmatch (M r # k) st = Some m"
  shows "\<exists>st'. rmatch k st' = Some m"
  using assms
proof (induction r arbitrary: k st)
  case Eps
  then show ?case by auto
next
  case (Lit a)
  then show ?case by (auto split: list.splits if_splits)
next
  case (Cls P)
  then show ?case by (auto split: list.splits if_splits)
next
  case Bol
  then show ?case by (auto split: if_splits)
next
  case WordB
  then show ?case by (auto split: if_splits)
next
  case (Seq a b)
  from Seq.prems have "rmatch (M a # M b # k) st = Some m" by simp
  from Seq.IH(1)[OF this] obtain st1 where "rmatch (M b # k) st1 = Some m" by blast
  from Seq.IH(2)[OF this] show ?case .
next
  case (Star P)
  then obtain xs st' where "rmatch k st' = Some m" by (rule rmatch_Star_elim)
  then show ?case by blast
next
  case (LazyStar P)
  then show ?case by (rule rmatch_LazyStar_through)
next
  case (Grp g r)
  from Grp.prems have "rmatch (M r # Close g (rest st) # k) st = Some m" by simp
  from Grp.IH[OF this] obtain st1 where "rmatch (Close g (rest st) # k) st1 = Some m" by blast
  then show ?case by auto
qed

lemma isdigit_chars:
  assumes "isdigit c"
  shows "\<not> isspace c" and "c \<noteq> CHR ''-''" and "c \<noteq> CHR ''+''" and "c \<noteq> CHR '':''"
    and "\<exists>d. digit_val c = Some d \<and> d < 10"
  using assms
  by (auto simp add: isdigit_def isspace_def digit_val_def in_range_def Let_def)

lemma digits_val_digits:
  assumes "\<forall>c\<in>set ds. isdigit c"
  shows "\<exists>n. digits_val 10 acc ds = Some n"
  using assms
proof (induction ds arbitrary: acc)
  case Nil
  show ?case by simp
next
  case (Cons c ds)
  then obtain d where "digit_val c = Some d" and "d < 10"
    using isdigit_chars(5)[of c] by auto
  with Cons show ?case by simp
qed

lemma strip_digits:
  assumes "ds \<noteq> []" and "\<forall>c\<in>set ds. isdigit c"
  shows "strip ds = ds"
proof -
  from assms obtain c cs where ds: "ds = c # cs" by (cases ds) auto
  with assms have "\<not> isspace c" by (simp add: isdigit_chars)
  then have a: "dropWhile isspace ds = ds" by (simp add: ds)
  from assms have "rev ds \<noteq> []" and "\<not> isspace (hd (rev ds))"
    by (simp_all add: isdigit_chars hd_rev)
  then have "dropWhile isspace (rev ds) = rev ds" by (cases "rev ds") auto
  with a show ?thesis by (simp add: strip_def)
qed

lemma py_int_digits:
  assumes "ds \<noteq> []" and "\<forall>c\<in>set ds. isdigit c"
  shows "\<exists>n. py_int 10 ds = Inr (int n)"
proof -
  from assms obtain c cs where ds: "ds = c # cs" by (cases ds) auto
  with assms have "c \<noteq> CHR ''-''" and "c \<noteq> CHR ''+''" by (simp_all add: isdigit_chars)
  then have sign: "drop_sign ds = (False, ds)" by (simp add: drop_sign_def ds)
  from digits_val_digits[OF assms(2)] obtain n where "digits_val 10 0 ds = Some n" by blast
  with sign assms(1) show ?thesis
    by (simp add: py_int_def strip_digits[OF assms] drop_prefix16_def)
qed

lemma split_on_digits:
  assumes "\<forall>c\<in>set d1. isdigit c" and "\<forall>c\<in>set d2. isdigit c"
  shows "split_on CHR '':'' (d1 @ CHR '':'' # d2) = [d1, d2]"
proof -
  have two: "split_on CHR '':'' d2 = [d2]" using assms(2)
  proof (induction d2)
    case Nil
    show ?case by simp
  next
    case (Cons c cs)
    then show ?case by (simp add: isdigit_chars)
  qed
  show ?thesis using assms(1)
  proof (induction d1)
    case Nil
    show ?case by (simp add: two)
  next
    case (Cons c cs)
    then show ?case by (simp add: isdigit_chars)
  qed
qed

lemma parse_addr_digits:
  assumes "d1 \<noteq> []" and "d2 \<noteq> []"
    and "\<forall>c\<in>set d1. isdigit c" and "\<forall>c\<in>set d2. isdigit c"
  shows "\<exists>a b. parse_addr (d1 @ CHR '':'' # d2) = Inr (int a, int b)"
proof -
  from py_int_digits[OF assms(1,3)] obtain a where a: "py_int 10 d1 = Inr (int a)" by blast
  from py_int_digits[OF assms(2,4)] obtain b where b: "py_int 10 d2 = Inr (int b)" by blast
  show ?thesis
    by (simp add: parse_addr_def split_on_digits[OF assms(3,4)] a b)
qed

lemma rmatch_Seqs_Cons:
  "rmatch (M (Seqs (r # rs)) # k) st = rmatch (M r # M (Seqs rs) # k) st"
  by (simp add: Seqs_def)

lemma rmatch_Seqs_Nil: "rmatch (M (Seqs []) # k) st = rmatch k st"
  by (simp add: Seqs_def)

lemma rmatch_Lit_elim:
  assumes "rmatch (M (Lit a) # k) st = Some m"
  obtains cs where "rest st = a # cs" and "rmatch k (advance st a cs) = Some m"
  using assms by (auto split: list.splits if_splits)

lemma rmatch_Plus_elim:
  assumes "rmatch (M (Plus P) # k) st = Some m"
  obtains xs st' where "rest st = xs @ rest st'" and "xs \<noteq> []" and "\<forall>c\<in>set xs. P c"
    and "rmatch k st' = Some m"
proof -
  from assms have "rmatch (M (Cls P) # M (Star P) # k) st = Some m"
    by (simp add: Plus_def)
  then obtain c cs where r: "rest st = c # cs" and c: "P c"
    and s: "rmatch (M (Star P) # k) (advance st c cs) = Some m"
    by (auto split: list.splits if_splits)
  from s obtain xs st' where "rest (advance st c cs) = xs @ rest st'"
    and "\<forall>c\<in>set xs. P c" and "rmatch k st' = Some m"
    by (rule rmatch_Star_elim)
  with r c that[of "c # xs" st'] show thesis by (simp add: advance_def)
qed

lemma addr_group_shape:
  assumes "rmatch [M (Grp 1 (Seqs [Plus isdigit, Lit CHR '':'', Plus isdigit])), M (Seqs [])] st
             = Some m"
  shows "\<exists>d1 d2. d1 \<noteq> [] \<and> d2 \<noteq> [] \<and> (\<forall>c\<in>set d1. isdigit c) \<and> (\<forall>c\<in>set d2. isdigit c)
           \<and> group m 1 = d1 @ CHR '':'' # d2"
proof -
  let ?k = "[Close 1 (rest st), M (Seqs [])]"
  from assms have "rmatch (M (Plus isdigit) # M (Seqs [Lit CHR '':'', Plus isdigit]) # ?k) st
      = Some m"
    by (simp only: rmatch.simps rmatch_Seqs_Cons)
  then obtain d1 st2 where r1: "rest st = d1 @ rest st2" and n1: "d1 \<noteq> []"
    and x1: "\<forall>c\<in>set d1. isdigit c"
    and s2: "rmatch (M (Seqs [Lit CHR '':'', Plus isdigit]) # ?k) st2 = Some m"
    by (rule rmatch_Plus_elim)
  from s2 have "rmatch (M (Lit CHR '':'') # M (Seqs [Plus isdigit]) # ?k) st2 = Some m"
    by (simp only: rmatch_Seqs_Cons)
  then obtain cs2 where r2: "rest st2 = CHR '':'' # cs2"
    and s3: "rmatch (M (Seqs [Plus isdigit]) # ?k) (advance st2 CHR '':'' cs2) = Some m"
    by (rule rmatch_Lit_elim)
  from s3 have "rmatch (M (Plus isdigit) # M (Seqs []) # ?k) (advance st2 CHR '':'' cs2) = Some m"
    by (simp only: rmatch_Seqs_Cons)
  then obtain d2 st4 where r3: "rest (advance st2 CHR '':'' cs2) = d2 @ rest st4"
    and n2: "d2 \<noteq> []" and x2: "\<forall>c\<in>set d2. isdigit c"
    and s4: "rmatch (M (Seqs []) # ?k) st4 = Some m"
    by (rule rmatch_Plus_elim)
  from s4 have m: "m = close_group 1 (rest st) st4"
    by (simp add: rmatch_Seqs_Nil)
  from r1 r2 r3 have whole: "rest st = d1 @ CHR '':'' # d2 @ rest st4"
    by (simp add: advance_def)
  have "group m 1 = take (length (rest st) - length (rest st4)) (rest st)"
    by (simp add: m close_group_def group_def update_conv')
  also have "\<dots> = d1 @ CHR '':'' # d2"
    by (simp add: whole)
  finally have "group m 1 = d1 @ CHR '':'' # d2" .
  with n1 n2 x1 x2 show ?thesis by blast
qed

lemma search_from_match:
  assumes "search_from r p s n = Some m"
  shows "\<exists>st. rmatch [M r] st = Some m"
  using assms
proof (induction s arbitrary: p n)
  case Nil
  then show ?case by auto
next
  case (Cons c cs)
  then show ?case by (cases "rmatch [M r] \<lparr>prev = p, rest = c # cs, pos = n, caps = []\<rparr>") auto
qed

lemma addr_match_parses:
  assumes "re_search g_addr_regexp s = Some m"
  shows "\<exists>a b. parse_addr (group m 1) = Inr (int a, int b)"
proof -
  let ?g = "M (Grp 1 (Seqs [Plus isdigit, Lit CHR '':'', Plus isdigit]))"
  from assms obtain st where "rmatch [M g_addr_regexp] st = Some m"
    unfolding re_search_def by (blast dest: search_from_match)
  then have "rmatch [M (Str ''addr''),
      M (Seqs [Plus isspace, Lit CHR ''='', Plus isspace,
               Grp 1 (Seqs [Plus isdigit, Lit CHR '':'', Plus isdigit])])] st = Some m"
    by (simp only: g_addr_regexp_def rmatch_Seqs_Cons)
  then obtain st1 where "rmatch [M (Seqs [Plus isspace, Lit CHR ''='', Plus isspace,
               Grp 1 (Seqs [Plus isdigit, Lit CHR '':'', Plus isdigit])])] st1 = Some m"
    by (blast dest: rmatch_through)
  then have "rmatch [M (Plus isspace), M (Seqs [Lit CHR ''='', Plus isspace,
               Grp 1 (Seqs [Plus isdigit, Lit CHR '':'', Plus isdigit])])] st1 = Some m"
    by (simp only: rmatch_Seqs_Cons)
  then obtain st2 where "rmatch [M (Seqs [Lit CHR ''='', Plus isspace,
               Grp 1 (Seqs [Plus isdigit, Lit CHR '':'', Plus isdigit])])] st2 = Some m"
    by (blast dest: rmatch_through)
  then have "rmatch [M (Lit CHR ''=''), M (Seqs [Plus isspace,
               Grp 1 (Seqs [Plus isdigit, Lit CHR '':'', Plus isdigit])])] st2 = Some m"
    by (simp only: rmatch_Seqs_Cons)
  then obtain st3 where "rmatch [M (Seqs [Plus isspace,
               Grp 1 (Seqs [Plus isdigit, Lit CHR '':'', Plus isdigit])])] st3 = Some m"
    by (blast dest: rmatch_through)
  then have "rmatch [M (Plus isspace),
      M (Seqs [Grp 1 (Seqs [Plus isdigit, Lit CHR '':'', Plus isdigit])])] st3 = Some m"
    by (simp only: rmatch_Seqs_Cons)
  then obtain st4 where
    "rmatch [M (Seqs [Grp 1 (Seqs [Plus isdigit, Lit CHR '':'', Plus isdigit])])] st4 = Some m"
    by (blast dest: rmatch_through)
  then have "rmatch [?g, M (Seqs [])] st4 = Some m"
    by (simp only: rmatch_Seqs_Cons)
  from addr_group_shape[OF this] obtain d1 d2 where "d1 \<noteq> []" "d2 \<noteq> []"
    "\<forall>c\<in>set d1. isdigit c" "\<forall>c\<in>set d2. isdigit c" "group m 1 = d1 @ CHR '':'' # d2"
    by blast
  with parse_addr_digits[of d1 d2] show ?thesis by simp
qed

section \<open>The vftable symbol extractor: properties\<close>

text \<open>
  The loop over a list of lines that is split in two runs over the first part and then,
  from the state reached, over the second.
\<close>

lemma vftable_loop_append:
  "vftable_loop tbl (xs @ ys) out mw l1 =
     (case vftable_loop tbl xs out mw l1 of
        Inl e \<Rightarrow> Inl e
      | Inr (out1, mw1) \<Rightarrow>
          vftable_loop tbl ys out1 mw1 (if xs = [] then l1 else strip (last xs)))"
proof (induction xs arbitrary: out mw l1)
  case Nil
  show ?case by simp
next
  case (Cons x xs)
  show ?case
    by (simp add: Cons.IH split: option.splits sum.splits prod.splits)
qed

text \<open>Lines among which no matching pair names \<open>n\<close> leave the entry of \<open>n\<close> alone.\<close>

lemma vftable_loop_preserve:
  assumes "vftable_loop tbl ls out mw l1 = Inr (out', mw')"
    and "\<forall>k<length ls. \<forall>m. re_match g_GDATA32_regexp ((l1 # map strip ls) ! k) = Some m \<longrightarrow>
           re_search g_addr_regexp (strip (ls ! k)) \<noteq> None \<longrightarrow> group m 2 \<noteq> n"
  shows "map_of out' n = map_of out n"
  using assms
proof (induction ls arbitrary: out mw l1)
  case Nil
  then show ?case by simp
next
  case (Cons line2 ls)
  have tail: "\<forall>k<length ls. \<forall>m.
           re_match g_GDATA32_regexp ((strip line2 # map strip ls) ! k) = Some m \<longrightarrow>
           re_search g_addr_regexp (strip (ls ! k)) \<noteq> None \<longrightarrow> group m 2 \<noteq> n"
  proof (intro allI impI)
    fix k m
    assume "k < length ls"
      and "re_match g_GDATA32_regexp ((strip line2 # map strip ls) ! k) = Some m"
      and "re_search g_addr_regexp (strip (ls ! k)) \<noteq> None"
    with Cons.prems(2)[rule_format, of "Suc k" m] show "group m 2 \<noteq> n" by simp
  qed
  have head: "\<And>m. re_match g_GDATA32_regexp l1 = Some m \<Longrightarrow>
      re_search g_addr_regexp (strip line2) \<noteq> None \<Longrightarrow> group m 2 \<noteq> n"
    using Cons.prems(2)[rule_format, of 0] by simp
  show ?case
  proof (cases "re_match g_GDATA32_regexp l1")
    case None
    with Cons.prems(1) have "vftable_loop tbl ls out mw (strip line2) = Inr (out', mw')"
      by simp
    from Cons.IH[OF this tail] show ?thesis .
  next
    case (Some m1)
    note first = this
    show ?thesis
    proof (cases "re_search g_addr_regexp (strip line2)")
      case None
      with first Cons.prems(1)
      have "vftable_loop tbl ls out mw (strip line2) = Inr (out', mw')" by simp
      from Cons.IH[OF this tail] show ?thesis .
    next
      case (Some m2)
      with head[OF first] have ne: "group m1 2 \<noteq> n" by simp
      from Cons.prems(1) first Some
      obtain base off where
        "vftable_loop tbl ls (AList.update (group m1 2) (Vft (base + off)) out)
           (max mw (int (length (group m1 2)))) (strip line2) = Inr (out', mw')"
        by (auto split: sum.splits option.splits prod.splits)
      from Cons.IH[OF this tail] ne show ?thesis by (simp add: update_conv')
    qed
  qed
qed

lemma vftable_loop_distinct:
  assumes "vftable_loop tbl ls out mw l1 = Inr (out', mw')" and "distinct (map fst out)"
  shows "distinct (map fst out')"
  using assms
proof (induction ls arbitrary: out mw l1)
  case Nil
  then show ?case by simp
next
  case (Cons line2 ls)
  from Cons.prems show ?case
    by (auto split: option.splits sum.splits prod.splits
             intro: Cons.IH distinct_update)
qed

text \<open>The only exception that leaves the loop is the failed table lookup.\<close>

lemma vftable_loop_error:
  assumes "vftable_loop tbl ls out mw l1 = Inl e"
  shows "e = KeyError"
  using assms
proof (induction ls arbitrary: out mw l1)
  case Nil
  then show ?case by simp
next
  case (Cons line2 ls)
  show ?case
  proof (cases "re_match g_GDATA32_regexp l1")
    case None
    with Cons show ?thesis by simp
  next
    case (Some m1)
    note first = this
    show ?thesis
    proof (cases "re_search g_addr_regexp (strip line2)")
      case None
      with first Cons show ?thesis by simp
    next
      case (Some m2)
      from addr_match_parses[OF this] obtain a b where
        "parse_addr (group m2 1) = Inr (int a, int b)" by blast
      with first Some Cons show ?thesis
        by (cases "map_of tbl (int a)") auto
    qed
  qed
qed

section \<open>The classifier and the reader: properties\<close>

text \<open>
  A record that parses completely, whose name is in the catalog with five fields and
  another size, fails the assertion of \<^verbatim>\<open>process_class\<close>.
\<close>

lemma process_class_conflict:
  assumes "re_search g_fwd_ref_regexp txt = None"
    and "re_search g_class_name_regexp txt = Some m"
    and "re_search g_scoped_regexp txt = None"
    and "\<not> contains ''<unnamed-'' (group m 1)"
    and "re_search g_unique_name_regexp txt = Some mu"
    and "re_search g_field_list_regexp txt = Some mf"
    and "py_int 16 (group mf 1) = Inr field_list_index"
    and "re_search g_sizeof_regexp txt = Some ms"
    and "py_int 10 (group ms 1) = Inr sizeof"
    and "map_of inout_types (group m 1) = Some (Full rva ti fl un old_sizeof)"
    and "old_sizeof \<noteq> sizeof"
  shows "process_class txt type_index fwd tp inout_types = Inl AssertionError"
  using assms by (auto simp add: process_class_def)

text \<open>The keys of the catalog stay distinct, as the keys of a dictionary are.\<close>

lemma process_class_distinct:
  assumes "process_class txt idx fwd tp ts = Inr (fwd', ts')" and "distinct (map fst ts)"
  shows "distinct (map fst ts')"
  using assms
  by (auto simp add: process_class_def Let_def distinct_update distinct_delete
           split: option.splits sum.splits if_splits)

lemma process_current_type_distinct:
  assumes "process_current_type txt fwd tp ts p = (tp', Inr (fwd', ts'))"
    and "distinct (map fst ts)"
  shows "distinct (map fst ts')"
  using assms
  by (auto simp add: process_current_type_def process_fieldlist_def Let_def
           split: option.splits sum.splits if_splits
           dest: process_class_distinct)

lemma reader_step_distinct:
  assumes "distinct (map fst (types st))"
  shows "distinct (map fst (types (reader_step st p line)))"
  using assms
  by (auto simp add: reader_step_def split: option.splits sum.splits prod.splits
           dest: process_current_type_distinct)

lemma reader_loop_distinct:
  assumes "distinct (map fst (types st))"
  shows "distinct (map fst (types (reader_loop st p ls)))"
  using assms
  by (induction ls arbitrary: st p) (simp_all add: reader_step_distinct)

lemma final_catalog_distinct:
  assumes "run s g t = Inr (r, pt)"
  shows "distinct (map fst (types r))"
proof -
  from assms obtain tbl cat mw where
    g: "get_types_with_vftable g tbl = Inr (cat, mw)" and
    r: "r = fill_types_info t cat"
    by (auto simp add: run_def Let_def split: sum.splits prod.splits)
  from g have "distinct (map fst cat)"
    by (auto simp add: get_types_with_vftable_def dest: vftable_loop_distinct)
  then show ?thesis
    by (simp add: r fill_types_info_def reader_loop_distinct reader_init_def)
qed

section \<open>The partitioner: properties\<close>

text \<open>What each of the three dictionaries holds for a name after the loop.\<close>

lemma partition_loop_virtual:
  assumes "distinct (map fst items)"
  shows "map_of (virtual_detailed_types (partition_loop items pt)) n =
     (case map_of items n of
        None \<Rightarrow> map_of (virtual_detailed_types pt) n
      | Some d \<Rightarrow> if 1 < len d \<and> 0 < elem0 d then Some d
                  else map_of (virtual_detailed_types pt) n)"
  using assms
proof (induction items arbitrary: pt)
  case Nil
  show ?case by simp
next
  case (Cons item items)
  obtain k d where item: "item = (k, d)" by (cases item)
  from Cons.prems item have notin: "map_of items k = None" and dist: "distinct (map fst items)"
    by (auto simp add: map_of_eq_None_iff)
  show ?case
    using notin by (auto simp add: item Cons.IH[OF dist] update_conv' split: option.splits)
qed

lemma partition_loop_detailed:
  assumes "distinct (map fst items)"
  shows "map_of (detailed_types (partition_loop items pt)) n =
     (case map_of items n of
        None \<Rightarrow> map_of (detailed_types pt) n
      | Some d \<Rightarrow> if 1 < len d \<and> \<not> 0 < elem0 d then Some d
                  else map_of (detailed_types pt) n)"
  using assms
proof (induction items arbitrary: pt)
  case Nil
  show ?case by simp
next
  case (Cons item items)
  obtain k d where item: "item = (k, d)" by (cases item)
  from Cons.prems item have notin: "map_of items k = None" and dist: "distinct (map fst items)"
    by (auto simp add: map_of_eq_None_iff)
  show ?case
    using notin by (auto simp add: item Cons.IH[OF dist] update_conv' split: option.splits)
qed

lemma partition_loop_unexpanded:
  assumes "distinct (map fst items)"
  shows "map_of (unexpanded_types (partition_loop items pt)) n =
     (case map_of items n of
        None \<Rightarrow> map_of (unexpanded_types pt) n
      | Some d \<Rightarrow> if len d = 1 then Some d else map_of (unexpanded_types pt) n)"
  using assms
proof (induction items arbitrary: pt)
  case Nil
  show ?case by simp
next
  case (Cons item items)
  obtain k d where item: "item = (k, d)" by (cases item)
  from Cons.prems item have notin: "map_of items k = None" and dist: "distinct (map fst items)"
    by (auto simp add: map_of_eq_None_iff)
  show ?case
    using notin by (auto simp add: item Cons.IH[OF dist] update_conv' split: option.splits)
qed

section \<open>The scenarios, evaluated\<close>

lemma some_caps:
  assumes "map_option caps x = Some cs"
  obtains m where "x = Some m" and "caps m = cs"
  using assms by (cases x) auto

lemma eval_sections: "generate_section2rva sections_text = Inr [(1, 0x1000)]"
  by code_simp

lemma eval_globals:
  "get_types_with_vftable globals_text [(1, 0x1000)] = Inr ([(''Foo'', Vft 0x1020)], 3)"
  by code_simp

lemma eval_globals_hex:
  "get_types_with_vftable globals_hex_text [(1, 0x1000)] = Inr ([(''Foo'', Vft 0x1000)], 3)"
  by code_simp

lemma eval_globals_section2:
  "get_types_with_vftable globals_section2_text [(1, 0x1000)] = Inl KeyError"
  by code_simp

lemma eval_globals_foo_bar:
  "get_types_with_vftable globals_foo_bar_text [(1, 0x1000)]
     = Inr ([(''Foo'', Vft 0x1020), (''Bar'', Vft 0x1040)], 3)"
  by code_simp

lemma eval_globals_three:
  "get_types_with_vftable globals_three_text [(1, 0x1000)]
     = Inr ([(''Foo'', Vft 0x1030), (''Bar'', Vft 0x1040)], 3)"
  by code_simp

lemma eval_types:
  "fill_types_info types_text [(''Foo'', Vft 0x1020)] =
     \<lparr>type_positions = [(0x1001, 19)], fwrd = [], content = pointer_header,
      content_pos = 183,
      types = [(''Foo'', Full 0x1020 0x1001 0x5 ''.?AUFoo@@'' 16)], printed = []\<rparr>"
  by code_simp

lemma eval_types_hex:
  "fill_types_info types_text [(''Foo'', Vft 0x1000)] =
     \<lparr>type_positions = [(0x1001, 19)], fwrd = [], content = pointer_header,
      content_pos = 183,
      types = [(''Foo'', Full 0x1000 0x1001 0x5 ''.?AUFoo@@'' 16)], printed = []\<rparr>"
  by code_simp

lemma eval_types_no_banner:
  "fill_types_info types_no_banner_text [(''Foo'', Vft 0x1020)] =
     \<lparr>type_positions = [], fwrd = [], content = pointer_header, content_pos = 164,
      types = [(''Foo'', Vft 0x1020)], printed = []\<rparr>"
  by code_simp

lemma eval_types_conflict:
  "fill_types_info types_conflict_text [(''Foo'', Vft 0x1020)] =
     \<lparr>type_positions = [(0x1001, 19), (0x1003, 183)], fwrd = [], content = foo_record_24,
      content_pos = 183, types = [(''Foo'', Full 0x1020 0x1001 0x5 ''.?AUFoo@@'' 16)],
      printed = [AssertionError]\<rparr>"
  by code_simp

lemma eval_types_foo_baz:
  "fill_types_info types_foo_baz_text [(''Foo'', Vft 0x1020), (''Bar'', Vft 0x1040)] =
     \<lparr>type_positions = [(0x1001, 19), (0x1005, 183)], fwrd = [], content = pointer_header,
      content_pos = 346,
      types = [(''Foo'', Full 0x1020 0x1001 0x5 ''.?AUFoo@@'' 16), (''Bar'', Vft 0x1040),
               (''Baz'', Full 0 0x1005 0x9 ''.?AUBaz@@'' 8)],
      printed = []\<rparr>"
  by code_simp

lemma eval_types_conflict_baz:
  "types (fill_types_info types_conflict_baz_text [(''Foo'', Vft 0x1020)])
     = [(''Foo'', Full 0x1020 0x1001 0x5 ''.?AUFoo@@'' 16)]"
  "printed (fill_types_info types_conflict_baz_text [(''Foo'', Vft 0x1020)])
     = [AssertionError, AssertionError]"
  by code_simp+

section \<open>Claims about the vftable symbol extractor\<close>

text \<open>
  Claim C5. Take two adjacent lines of the globals dump, the first (stripped) matching the
  vftable symbol pattern with type name \<open>group m1 2\<close>, the second holding an address
  field \<open>section:offset\<close> whose section is in the table, and let no later matching pair
  name the same type. When the extraction returns, the catalog maps the type name to the
  one-element entry \<open>[SectionTable[section] + offset]\<close>, the sum being that of unbounded
  integers. Whatever an earlier pair recorded for the name has been overwritten: the last
  pair wins.
\<close>

theorem vftable_pair_recorded:
  assumes lines: "file_lines dump = before @ line2 # after"
    and ok: "get_types_with_vftable dump tbl = Inr (out_types, max_width)"
    and m1: "re_match g_GDATA32_regexp (if before = [] then [] else strip (last before)) = Some m1"
    and m2: "re_search g_addr_regexp (strip line2) = Some m2"
    and addr: "parse_addr (group m2 1) = Inr (section, offset)"
    and sec: "map_of tbl section = Some section_rva"
    and later: "\<forall>k<length after. \<forall>m.
           re_match g_GDATA32_regexp (strip ((line2 # after) ! k)) = Some m \<longrightarrow>
           re_search g_addr_regexp (strip (after ! k)) \<noteq> None \<longrightarrow> group m 2 \<noteq> group m1 2"
  shows "map_of out_types (group m1 2) = Some (Vft (section_rva + offset))"
proof -
  let ?l1 = "if before = [] then [] else strip (last before)"
  from ok lines
  have "vftable_loop tbl (before @ line2 # after) [] (- 1) [] = Inr (out_types, max_width)"
    by (simp add: get_types_with_vftable_def)
  then obtain out1 mw1 where
    "vftable_loop tbl (line2 # after) out1 mw1 ?l1 = Inr (out_types, max_width)"
    by (auto simp add: vftable_loop_append split: sum.splits prod.splits)
  with m1 m2 addr sec have tail:
    "vftable_loop tbl after (AList.update (group m1 2) (Vft (section_rva + offset)) out1)
       (max mw1 (int (length (group m1 2)))) (strip line2) = Inr (out_types, max_width)"
    by simp
  have "\<forall>k<length after. \<forall>m.
           re_match g_GDATA32_regexp ((strip line2 # map strip after) ! k) = Some m \<longrightarrow>
           re_search g_addr_regexp (strip (after ! k)) \<noteq> None \<longrightarrow> group m 2 \<noteq> group m1 2"
  proof (intro allI impI)
    fix k m
    assume k: "k < length after"
      and a: "re_match g_GDATA32_regexp ((strip line2 # map strip after) ! k) = Some m"
      and b: "re_search g_addr_regexp (strip (after ! k)) \<noteq> None"
    have "(strip line2 # map strip after) ! k = strip ((line2 # after) ! k)"
      using k by (cases k) simp_all
    with a b later k show "group m 2 \<noteq> group m1 2" by simp
  qed
  from vftable_loop_preserve[OF tail this] show ?thesis by (simp add: update_conv')
qed

lemma lines_three:
  "file_lines globals_three_text =
     [foo_symbol, addr_line_32, foo_symbol] @ addr_line_48 # [bar_symbol, addr_line_64]"
  by code_simp

lemma match_foo_symbol:
  "map_option caps (re_match g_GDATA32_regexp (strip foo_symbol)) = Some [(1, ''12''), (2, ''Foo'')]"
  by code_simp

lemma match_bar_symbol:
  "map_option caps (re_match g_GDATA32_regexp (strip bar_symbol)) = Some [(1, ''13''), (2, ''Bar'')]"
  by code_simp

lemma match_addr_line_48: "re_match g_GDATA32_regexp (strip addr_line_48) = None"
  by code_simp

lemma search_addr_line_48:
  "map_option caps (re_search g_addr_regexp (strip addr_line_48)) = Some [(1, ''1:48'')]"
  by code_simp

lemma search_addr_line_section2:
  "map_option caps (re_search g_addr_regexp (strip addr_line_section2)) = Some [(1, ''2:32'')]"
  by code_simp

lemma parse_addr_48: "parse_addr ''1:48'' = Inr (1, 48)"
  by code_simp

lemma parse_addr_section2: "parse_addr ''2:32'' = Inr (2, 32)"
  by code_simp

theorem vftable_pair_recorded_witness:
  "get_types_with_vftable globals_three_text [(1, 0x1000)]
     = Inr ([(''Foo'', Vft 0x1030), (''Bar'', Vft 0x1040)], 3)
   \<and> map_of [(''Foo'', Vft 0x1030), (''Bar'', Vft 0x1040)] ''Foo'' = Some (Vft (0x1000 + 48))"
proof -
  obtain m1 where m1: "re_match g_GDATA32_regexp (strip foo_symbol) = Some m1"
    and c1: "caps m1 = [(1, ''12''), (2, ''Foo'')]"
    using match_foo_symbol by (rule some_caps)
  obtain m2 where m2: "re_search g_addr_regexp (strip addr_line_48) = Some m2"
    and c2: "caps m2 = [(1, ''1:48'')]"
    using search_addr_line_48 by (rule some_caps)
  have name: "group m1 2 = ''Foo''" by (simp add: group_def c1)
  have addr: "parse_addr (group m2 1) = Inr (1, 48)" by (simp add: group_def c2 parse_addr_48)
  have later: "\<forall>k<length [bar_symbol, addr_line_64]. \<forall>m.
           re_match g_GDATA32_regexp (strip ((addr_line_48 # [bar_symbol, addr_line_64]) ! k)) = Some m \<longrightarrow>
           re_search g_addr_regexp (strip ([bar_symbol, addr_line_64] ! k)) \<noteq> None \<longrightarrow>
           group m 2 \<noteq> group m1 2"
  proof (intro allI impI)
    fix k m
    assume k: "k < length [bar_symbol, addr_line_64]"
      and a: "re_match g_GDATA32_regexp (strip ((addr_line_48 # [bar_symbol, addr_line_64]) ! k)) = Some m"
    from k have "k = 0 \<or> k = 1" by auto
    then show "group m 2 \<noteq> group m1 2"
    proof
      assume "k = 0"
      with a show ?thesis by (simp add: match_addr_line_48)
    next
      assume "k = 1"
      with a have "re_match g_GDATA32_regexp (strip bar_symbol) = Some m" by simp
      with match_bar_symbol have "caps m = [(1, ''13''), (2, ''Bar'')]" by simp
      then have "group m 2 = ''Bar''" by (simp add: group_def)
      with name show ?thesis by simp
    qed
  qed
  have "map_of [(''Foo'', Vft 0x1030), (''Bar'', Vft 0x1040)] (group m1 2) = Some (Vft (0x1000 + 48))"
    by (rule vftable_pair_recorded[OF lines_three eval_globals_three _ m2 addr _ later])
       (simp_all add: m1)
  with eval_globals_three show ?thesis by (simp add: name)
qed

text \<open>
  Claim C10. When the globals dump holds a matching pair of lines whose address field
  names a section that the section table lacks, the lookup raises \<^verbatim>\<open>KeyError\<close>;
  nothing catches it, and the whole extraction ends with that error and no catalog,
  whatever lines come before or after. (A pair whose second line has no address field is
  skipped, by the loop itself.)
\<close>

theorem unknown_section_aborts:
  assumes lines: "file_lines dump = before @ line2 # after"
    and m1: "re_match g_GDATA32_regexp (if before = [] then [] else strip (last before)) = Some m1"
    and m2: "re_search g_addr_regexp (strip line2) = Some m2"
    and addr: "parse_addr (group m2 1) = Inr (section, offset)"
    and sec: "map_of tbl section = None"
  shows "get_types_with_vftable dump tbl = Inl KeyError"
proof (cases "vftable_loop tbl before [] (- 1) []")
  case (Inl e)
  with vftable_loop_error[OF Inl] lines show ?thesis
    by (simp add: get_types_with_vftable_def vftable_loop_append)
next
  case (Inr res)
  then obtain out1 mw1 where "vftable_loop tbl before [] (- 1) [] = Inr (out1, mw1)"
    by (cases res) simp
  with assms show ?thesis
    by (simp add: get_types_with_vftable_def vftable_loop_append)
qed

lemma lines_section2: "file_lines globals_section2_text = [foo_symbol] @ addr_line_section2 # []"
  by code_simp

theorem unknown_section_aborts_witness:
  "get_types_with_vftable globals_section2_text [(1, 0x1000)] = Inl KeyError"
proof -
  obtain m1 where m1: "re_match g_GDATA32_regexp (strip foo_symbol) = Some m1"
    using match_foo_symbol by (rule some_caps)
  obtain m2 where m2: "re_search g_addr_regexp (strip addr_line_section2) = Some m2"
    and c2: "caps m2 = [(1, ''2:32'')]"
    using search_addr_line_section2 by (rule some_caps)
  have addr: "parse_addr (group m2 1) = Inr (2, 32)"
    by (simp add: group_def c2 parse_addr_section2)
  show ?thesis
    by (rule unknown_section_aborts[OF lines_section2 _ m2 addr])
       (simp_all add: m1)
qed

section \<open>Claims about the classifier and merger\<close>

lemma search_forward_record:
  "map_option caps (re_search g_fwd_ref_regexp forward_record) = Some [(1, ''0x1001'')]"
  by code_simp

lemma search_forward_scoped_record:
  "map_option caps (re_search g_fwd_ref_regexp forward_scoped_record) = Some [(1, ''0x1001'')]"
  by code_simp

lemma int_0x1001: "py_int 16 ''0x1001'' = Inr 0x1001"
  by code_simp

lemma int_0x5: "py_int 16 ''0x5'' = Inr 0x5"
  by code_simp

lemma int_0x7: "py_int 16 ''0x7'' = Inr 0x7"
  by code_simp

lemma int_16: "py_int 10 ''16'' = Inr 16"
  by code_simp

lemma int_24: "py_int 10 ''24'' = Inr 24"
  by code_simp

lemma int_0x1003: "py_int 16 ''0x1003'' = Inr 0x1003"
  by code_simp

lemma not_unnamed_Foo: "\<not> contains ''<unnamed-'' ''Foo''"
  by code_simp

lemma foo_record_searches:
  "re_search g_fwd_ref_regexp foo_record = None"
  "map_option caps (re_search g_class_name_regexp foo_record) = Some [(1, ''Foo'')]"
  "re_search g_scoped_regexp foo_record = None"
  "map_option caps (re_search g_unique_name_regexp foo_record) = Some [(1, ''.?AUFoo@@'')]"
  "map_option caps (re_search g_field_list_regexp foo_record) = Some [(1, ''0x5'')]"
  "map_option caps (re_search g_sizeof_regexp foo_record) = Some [(1, ''16'')]"
  by code_simp+

lemma foo_record_24_searches:
  "map_option caps (re_search g_type_header_regexp foo_record_24)
     = Some [(1, ''0x1003''), (2, ''LF_STRUCTURE'')]"
  "re_search g_fwd_ref_regexp foo_record_24 = None"
  "map_option caps (re_search g_class_name_regexp foo_record_24) = Some [(1, ''Foo'')]"
  "re_search g_scoped_regexp foo_record_24 = None"
  "map_option caps (re_search g_unique_name_regexp foo_record_24) = Some [(1, ''.?AUFoo@@'')]"
  "map_option caps (re_search g_field_list_regexp foo_record_24) = Some [(1, ''0x7'')]"
  "map_option caps (re_search g_sizeof_regexp foo_record_24) = Some [(1, ''24'')]"
  by code_simp+

lemma scoped_record_searches:
  "re_search g_fwd_ref_regexp scoped_record = None"
  "map_option caps (re_search g_class_name_regexp scoped_record) = Some [(1, ''Foo'')]"
  "map_option caps (re_search g_scoped_regexp scoped_record) = Some []"
  by code_simp+

lemma forward_scoped_record_searches:
  "map_option caps (re_search g_class_name_regexp forward_scoped_record) = Some [(1, ''Foo'')]"
  "map_option caps (re_search g_scoped_regexp forward_scoped_record) = Some []"
  by code_simp+

lemma search_pointer_header:
  "map_option caps (re_search g_type_header_regexp pointer_header)
     = Some [(1, ''0x1002''), (2, ''LF_POINTER'')]"
  by code_simp

text \<open>
  Claim C7. For a class or structure record whose text holds a forward-reference marker
  that names a type index, \<^verbatim>\<open>process_class\<close> records
  \<open>ForwardRefMap[this_index] = referenced_index\<close> and returns the type catalog exactly as
  it received it: no entry is created, changed or removed.
\<close>

theorem forward_declaration_frame:
  assumes "re_search g_fwd_ref_regexp txt = Some m"
    and "py_int 16 (group m 1) = Inr referenced_index"
  shows "process_class txt this_index fwd tp inout_types
           = Inr (AList.update this_index referenced_index fwd, inout_types)
         \<and> map_of (AList.update this_index referenced_index fwd) this_index
             = Some referenced_index"
  using assms by (simp add: process_class_def update_conv')

theorem forward_declaration_frame_witness:
  "process_class forward_record 0x1007 [] [] [(''Foo'', Vft 0x1020)]
     = Inr ([(0x1007, 0x1001)], [(''Foo'', Vft 0x1020)])"
proof -
  obtain m where m: "re_search g_fwd_ref_regexp forward_record = Some m"
    and c: "caps m = [(1, ''0x1001'')]"
    using search_forward_record by (rule some_caps)
  have "py_int 16 (group m 1) = Inr 0x1001" by (simp add: group_def c int_0x1001)
  from forward_declaration_frame[where this_index = "0x1007" and fwd = "[]" and tp = "[]"
      and inout_types = "[(''Foo'', Vft 0x1020)]", OF m this]
  show ?thesis by simp
qed

text \<open>
  Claim C6 as stated fails for a record that is scoped and also a forward declaration: the
  forward-declaration check comes first and returns, so the entry of the display name
  stays in the catalog.
\<close>

theorem scoped_forward_counterexample:
  "map_option caps (re_search g_class_name_regexp forward_scoped_record) = Some [(1, ''Foo'')]
   \<and> re_search g_scoped_regexp forward_scoped_record \<noteq> None
   \<and> process_class forward_scoped_record 0x1008 [] [] [(''Foo'', Vft 0x1020)]
       = Inr ([(0x1008, 0x1001)], [(''Foo'', Vft 0x1020)])"
proof -
  have "process_class forward_scoped_record 0x1008 [] [] [(''Foo'', Vft 0x1020)]
       = Inr ([(0x1008, 0x1001)], [(''Foo'', Vft 0x1020)])"
    by code_simp
  with forward_scoped_record_searches show ?thesis by auto
qed

text \<open>
  Claim C6, amended. For a class or structure record that holds no forward-reference
  marker, whose display name is extracted and whose options text marks it scoped,
  \<^verbatim>\<open>process_class\<close> removes the catalog entry of that display name, if there is one
  (a vftable-only entry included), and adds nothing: afterwards the name is absent from
  the catalog and every other name has the entry it had.
\<close>

theorem scoped_removes_entry:
  assumes "re_search g_fwd_ref_regexp txt = None"
    and "re_search g_class_name_regexp txt = Some m"
    and "re_search g_scoped_regexp txt \<noteq> None"
  shows "process_class txt type_index fwd tp inout_types
           = Inr (fwd, AList.delete (group m 1) inout_types)
         \<and> map_of (AList.delete (group m 1) inout_types) (group m 1) = None
         \<and> (\<forall>n. n \<noteq> group m 1 \<longrightarrow>
               map_of (AList.delete (group m 1) inout_types) n = map_of inout_types n)"
  using assms by (auto simp add: process_class_def delete_conv')

theorem scoped_removes_entry_witness:
  "process_class scoped_record 0x1006 [] [] [(''Foo'', Vft 0x1020)] = Inr ([], [])"
proof -
  obtain m where m: "re_search g_class_name_regexp scoped_record = Some m"
    and c: "caps m = [(1, ''Foo'')]"
    using scoped_record_searches(2) by (rule some_caps)
  have s: "re_search g_scoped_regexp scoped_record \<noteq> None"
    using scoped_record_searches(3) by auto
  have g: "group m 1 = ''Foo''" by (simp add: group_def c)
  from scoped_removes_entry[where type_index = "0x1006" and fwd = "[]" and tp = "[]"
      and inout_types = "[(''Foo'', Vft 0x1020)]", OF scoped_record_searches(1) m s, unfolded g]
  show ?thesis by simp
qed

text \<open>
  Claim C8. For a class or structure record that parses completely (no forward-reference
  marker, a display name that is neither scoped nor unnamed, a unique name, a field list
  and a size) and whose display name is already in the catalog, as a one-field entry or as
  a five-field entry of the same size, the merge succeeds and the new entry has the rva of
  the old one and the type index, field-list index, unique name and size just parsed.
\<close>

theorem merge_keeps_rva:
  assumes "re_search g_fwd_ref_regexp txt = None"
    and "re_search g_class_name_regexp txt = Some m"
    and "re_search g_scoped_regexp txt = None"
    and "\<not> contains ''<unnamed-'' (group m 1)"
    and "re_search g_unique_name_regexp txt = Some mu"
    and "re_search g_field_list_regexp txt = Some mf"
    and "py_int 16 (group mf 1) = Inr field_list_index"
    and "re_search g_sizeof_regexp txt = Some ms"
    and "py_int 10 (group ms 1) = Inr sizeof"
    and "map_of inout_types (group m 1) = Some elem"
    and "elem = Vft rva \<or> (\<exists>ti fl un. elem = Full rva ti fl un sizeof)"
  shows "process_class txt type_index fwd tp inout_types
           = Inr (fwd, AList.update (group m 1)
                         (Full rva type_index field_list_index (group mu 1) sizeof) inout_types)
         \<and> map_of (AList.update (group m 1)
                (Full rva type_index field_list_index (group mu 1) sizeof) inout_types) (group m 1)
             = Some (Full rva type_index field_list_index (group mu 1) sizeof)"
  using assms by (auto simp add: process_class_def update_conv')

theorem merge_keeps_rva_witness:
  "process_class foo_record 0x1001 [] [] [(''Foo'', Vft 0x1020)]
     = Inr ([], [(''Foo'', Full 0x1020 0x1001 0x5 ''.?AUFoo@@'' 16)])
   \<and> process_class foo_record 0x1001 [] [] [(''Foo'', Full 0x1020 0x0FFF 0x3 ''.?AUOld@@'' 16)]
     = Inr ([], [(''Foo'', Full 0x1020 0x1001 0x5 ''.?AUFoo@@'' 16)])"
proof -
  obtain m where m: "re_search g_class_name_regexp foo_record = Some m"
    and c: "caps m = [(1, ''Foo'')]"
    using foo_record_searches(2) by (rule some_caps)
  obtain mu where mu: "re_search g_unique_name_regexp foo_record = Some mu"
    and cu: "caps mu = [(1, ''.?AUFoo@@'')]"
    using foo_record_searches(4) by (rule some_caps)
  obtain mf where mf: "re_search g_field_list_regexp foo_record = Some mf"
    and cf: "caps mf = [(1, ''0x5'')]"
    using foo_record_searches(5) by (rule some_caps)
  obtain ms where ms: "re_search g_sizeof_regexp foo_record = Some ms"
    and cs: "caps ms = [(1, ''16'')]"
    using foo_record_searches(6) by (rule some_caps)
  have g: "group m 1 = ''Foo''" and gu: "group mu 1 = ''.?AUFoo@@''"
    by (simp_all add: group_def c cu)
  have nu: "\<not> contains ''<unnamed-'' (group m 1)" by (simp only: g not_unnamed_Foo not_False_eq_True)
  have fl: "py_int 16 (group mf 1) = Inr 0x5" by (simp add: group_def cf int_0x5)
  have sz: "py_int 10 (group ms 1) = Inr 16" by (simp add: group_def cs int_16)
  note step = merge_keeps_rva[where type_index = "0x1001" and fwd = "[]" and tp = "[]"
      and rva = "0x1020", OF foo_record_searches(1) m foo_record_searches(3) nu mu mf fl ms sz]
  have a: "process_class foo_record 0x1001 [] [] [(''Foo'', Vft 0x1020)]
     = Inr ([], [(''Foo'', Full 0x1020 0x1001 0x5 ''.?AUFoo@@'' 16)])"
    using step[where inout_types = "[(''Foo'', Vft 0x1020)]" and elem = "Vft 0x1020", unfolded g gu]
    by simp
  have b: "process_class foo_record 0x1001 [] [] [(''Foo'', Full 0x1020 0x0FFF 0x3 ''.?AUOld@@'' 16)]
     = Inr ([], [(''Foo'', Full 0x1020 0x1001 0x5 ''.?AUFoo@@'' 16)])"
    using step[where inout_types = "[(''Foo'', Full 0x1020 0x0FFF 0x3 ''.?AUOld@@'' 16)]"
        and elem = "Full 0x1020 0x0FFF 0x3 ''.?AUOld@@'' 16", unfolded g gu]
    by simp
  from a b show ?thesis by simp
qed

section \<open>Claims about the stream reader and the whole run\<close>

lemma run_conflict:
  "run sections_text globals_text types_conflict_text =
     Inr (\<lparr>type_positions = [(0x1001, 19), (0x1003, 183)], fwrd = [], content = foo_record_24,
           content_pos = 183, types = [(''Foo'', Full 0x1020 0x1001 0x5 ''.?AUFoo@@'' 16)],
           printed = [AssertionError]\<rparr>,
          \<lparr>detailed_types = [],
           virtual_detailed_types = [(''Foo'', Full 0x1020 0x1001 0x5 ''.?AUFoo@@'' 16)],
           unexpanded_types = []\<rparr>)"
  by (simp add: run_def eval_sections eval_globals eval_types_conflict partition_types_def)

lemma run_section2: "run sections_text globals_section2_text types_text = Inl KeyError"
  by (simp add: run_def eval_sections eval_globals_section2)

text \<open>
  Claim C1 as stated fails in its last part. In a type dump that defines \<^verbatim>\<open>Foo\<close>
  twice with sizes 16 and 24 the failed assertion is printed, the catalog keeps the first
  definition, and the run goes on to its end; a vftable symbol in a section that
  the section table lacks, on the other hand, ends the run with \<^verbatim>\<open>KeyError\<close>.
\<close>

theorem size_conflict_counterexample:
  "printed (fill_types_info types_conflict_text [(''Foo'', Vft 0x1020)]) = [AssertionError]
   \<and> map_of (types (fill_types_info types_conflict_text [(''Foo'', Vft 0x1020)])) ''Foo''
       = Some (Full 0x1020 0x1001 0x5 ''.?AUFoo@@'' 16)
   \<and> \<not> isl (run sections_text globals_text types_conflict_text)
   \<and> run sections_text globals_section2_text types_text = Inl KeyError"
  by (simp add: run_conflict run_section2 eval_types_conflict)

text \<open>
  Claim C1, amended. When the reader flushes a class or structure record that parses
  completely and whose display name maps to a five-field catalog entry of another size,
  \<^verbatim>\<open>process_class\<close> raises \<^verbatim>\<open>AssertionError\<close>. The reader catches and prints it
  and goes on with the next line: the catalog is what it was, so the entry keeps the
  earlier size and all its other fields, and the run is not aborted. (The buffer is not
  replaced either: it still holds the record that failed.)
\<close>

theorem size_conflict_reported:
  assumes "re_search g_type_header_regexp line \<noteq> None"
    and "content st \<noteq> []"
    and "re_search g_type_header_regexp (content st) = Some mh"
    and "py_int 16 (group mh 1) = Inr type_idx"
    and "group mh 2 = ''LF_CLASS'' \<or> group mh 2 = ''LF_STRUCTURE''"
    and "re_search g_fwd_ref_regexp (content st) = None"
    and "re_search g_class_name_regexp (content st) = Some m"
    and "re_search g_scoped_regexp (content st) = None"
    and "\<not> contains ''<unnamed-'' (group m 1)"
    and "re_search g_unique_name_regexp (content st) = Some mu"
    and "re_search g_field_list_regexp (content st) = Some mf"
    and "py_int 16 (group mf 1) = Inr field_list_index"
    and "re_search g_sizeof_regexp (content st) = Some ms"
    and "py_int 10 (group ms 1) = Inr sizeof"
    and "map_of (types st) (group m 1) = Some (Full rva ti fl un old_sizeof)"
    and "old_sizeof \<noteq> sizeof"
  shows "process_class (content st) type_idx (fwrd st)
           (AList.update type_idx (content_pos st) (type_positions st)) (types st)
           = Inl AssertionError
       \<and> reader_step st p line =
           st\<lparr>type_positions := AList.update type_idx (content_pos st) (type_positions st),
              printed := printed st @ [AssertionError]\<rparr>
       \<and> types (reader_step st p line) = types st"
proof -
  have pc: "\<And>tp. process_class (content st) type_idx (fwrd st) tp (types st) = Inl AssertionError"
    by (rule process_class_conflict[OF assms(6-16)])
  have "process_current_type (content st) (fwrd st) (type_positions st) (types st) (content_pos st)
          = (AList.update type_idx (content_pos st) (type_positions st), Inl AssertionError)"
    using assms(3-5) pc by (auto simp add: process_current_type_def g_wanted_types_def Let_def)
  with assms(1,2) pc show ?thesis
    by (auto simp add: reader_step_def)
qed

lemma foo_record_24_nonempty: "foo_record_24 \<noteq> []"
  by (simp add: foo_record_24_def)

theorem size_conflict_reported_witness:
  "reader_step
     \<lparr>type_positions = [(0x1001, 19)], fwrd = [], content = foo_record_24, content_pos = 183,
      types = [(''Foo'', Full 0x1020 0x1001 0x5 ''.?AUFoo@@'' 16)], printed = []\<rparr>
     346 pointer_header
   = \<lparr>type_positions = [(0x1001, 19), (0x1003, 183)], fwrd = [], content = foo_record_24,
      content_pos = 183, types = [(''Foo'', Full 0x1020 0x1001 0x5 ''.?AUFoo@@'' 16)],
      printed = [AssertionError]\<rparr>"
proof -
  let ?st = "\<lparr>type_positions = [(0x1001, 19)], fwrd = [], content = foo_record_24,
      content_pos = 183, types = [(''Foo'', Full 0x1020 0x1001 0x5 ''.?AUFoo@@'' 16)],
      printed = []\<rparr>"
  obtain mh where mh: "re_search g_type_header_regexp foo_record_24 = Some mh"
    and ch: "caps mh = [(1, ''0x1003''), (2, ''LF_STRUCTURE'')]"
    using foo_record_24_searches(1) by (rule some_caps)
  obtain m where m: "re_search g_class_name_regexp foo_record_24 = Some m"
    and c: "caps m = [(1, ''Foo'')]"
    using foo_record_24_searches(3) by (rule some_caps)
  obtain mu where mu: "re_search g_unique_name_regexp foo_record_24 = Some mu"
    using foo_record_24_searches(5) by (rule some_caps)
  obtain mf where mf: "re_search g_field_list_regexp foo_record_24 = Some mf"
    and cf: "caps mf = [(1, ''0x7'')]"
    using foo_record_24_searches(6) by (rule some_caps)
  obtain ms where ms: "re_search g_sizeof_regexp foo_record_24 = Some ms"
    and cs: "caps ms = [(1, ''24'')]"
    using foo_record_24_searches(7) by (rule some_caps)
  have g: "group m 1 = ''Foo''" by (simp add: group_def c)
  have h1: "re_search g_type_header_regexp pointer_header \<noteq> None"
    using search_pointer_header by auto
  have h4: "py_int 16 (group mh 1) = Inr 0x1003" by (simp add: group_def ch int_0x1003)
  have h5: "group mh 2 = ''LF_CLASS'' \<or> group mh 2 = ''LF_STRUCTURE''"
    by (simp add: group_def ch)
  have h9: "\<not> contains ''<unnamed-'' (group m 1)"
    by (simp only: g not_unnamed_Foo not_False_eq_True)
  have h12: "py_int 16 (group mf 1) = Inr 0x7" by (simp add: group_def cf int_0x7)
  have h14: "py_int 10 (group ms 1) = Inr 24" by (simp add: group_def cs int_24)
  have h15: "map_of (types ?st) (group m 1) = Some (Full 0x1020 0x1001 0x5 ''.?AUFoo@@'' 16)"
    unfolding g by simp
  have "reader_step ?st 346 pointer_header =
           ?st\<lparr>type_positions := AList.update 0x1003 (content_pos ?st) (type_positions ?st),
              printed := printed ?st @ [AssertionError]\<rparr>"
    using size_conflict_reported[where st = ?st and line = pointer_header and p = 346
        and type_idx = "0x1003" and sizeof = 24 and old_sizeof = 16, OF h1 _ _ h4 h5 _ _ _ h9 _ _ h12 _ h14 h15]
      mh m mu mf ms foo_record_24_searches(2,4) foo_record_24_nonempty
    by simp
  then show ?thesis by simp
qed

text \<open>
  Claim C2 at a type dump that begins with the header line of the record of
  \<^verbatim>\<open>Foo\<close>: the record is complete and the header line of another record follows it,
  yet it is never classified, the catalog and the positions are left as they were. The
  same record after a banner line is classified. Likewise the record of \<^verbatim>\<open>Baz\<close>
  that follows a record whose processing raised is never classified, though a header
  line follows it.
\<close>

theorem complete_record_never_delivered:
  "types (fill_types_info types_no_banner_text [(''Foo'', Vft 0x1020)]) = [(''Foo'', Vft 0x1020)]
   \<and> type_positions (fill_types_info types_no_banner_text [(''Foo'', Vft 0x1020)]) = []
   \<and> types (fill_types_info types_text [(''Foo'', Vft 0x1020)])
       = [(''Foo'', Full 0x1020 0x1001 0x5 ''.?AUFoo@@'' 16)]
   \<and> map_of (types (fill_types_info types_conflict_baz_text [(''Foo'', Vft 0x1020)])) ''Baz''
       = None"
  by (simp add: eval_types_no_banner eval_types eval_types_conflict_baz)

text \<open>
  Claim C3 as stated fails when the address line reads \<^verbatim>\<open>addr = 1:0x20\<close>: the
  address pattern takes decimal digits only, so the offset read is 0 and the rva of
  \<^verbatim>\<open>Foo\<close> is \<^verbatim>\<open>0x1000\<close>.
\<close>

theorem end_to_end_hex_offset_counterexample:
  "\<not> isl (run sections_text globals_hex_text types_text)
   \<and> map_of (types (fst (projr (run sections_text globals_hex_text types_text)))) ''Foo''
       = Some (Full 0x1000 0x1001 0x5 ''.?AUFoo@@'' 16)"
  by (simp add: run_def eval_sections eval_globals_hex eval_types_hex)

text \<open>
  Claim C3, amended. With the section table \<open>{1: 0x1000}\<close>, the vftable symbol of
  \<^verbatim>\<open>Foo\<close> followed by the address line \<^verbatim>\<open>addr = 1:32\<close> (the offset
  \<^verbatim>\<open>0x20\<close> in decimal, as the address pattern reads it), and a type dump that holds
  the record of \<^verbatim>\<open>Foo\<close> (index \<^verbatim>\<open>0x1001\<close>, not scoped, not anonymous, unique
  name \<^verbatim>\<open>.?AUFoo@@\<close>, field list \<^verbatim>\<open>0x5\<close>, sizeof 16) after the banner line and
  before the header line of a further record, the final catalog maps \<^verbatim>\<open>Foo\<close> to the
  five fields rva \<^verbatim>\<open>0x1020\<close>, type index \<^verbatim>\<open>0x1001\<close>, field list \<^verbatim>\<open>0x5\<close>,
  unique name \<^verbatim>\<open>.?AUFoo@@\<close> and sizeof 16, and \<^verbatim>\<open>Foo\<close> is in the virtual-types
  partition and in no other.
\<close>

theorem end_to_end_scenario:
  "generate_section2rva sections_text = Inr [(1, 0x1000)]
   \<and> run sections_text globals_text types_text =
       Inr (\<lparr>type_positions = [(0x1001, 19)], fwrd = [], content = pointer_header,
             content_pos = 183,
             types = [(''Foo'', Full 0x1020 0x1001 0x5 ''.?AUFoo@@'' 16)], printed = []\<rparr>,
            \<lparr>detailed_types = [],
             virtual_detailed_types = [(''Foo'', Full 0x1020 0x1001 0x5 ''.?AUFoo@@'' 16)],
             unexpanded_types = []\<rparr>)"
  by (simp add: run_def eval_sections eval_globals eval_types partition_types_def)

text \<open>
  Claim C4 at a section dump whose block 1 has no virtual-address field and whose block 2
  has \<^verbatim>\<open>2000 virtual address\<close>: the lazy \<^verbatim>\<open>.*?\<close> runs on from the header of block
  1 into block 2, so the table maps section 1 to \<^verbatim>\<open>0x2000\<close> and has no entry
  for section 2.
\<close>

theorem section_without_address_takes_next:
  "generate_section2rva sections_gap_text = Inr [(1, 0x2000)]"
  by code_simp

text \<open>
  Claim C9. Every entry of the final catalog of a run is in exactly one of the three
  groups: a five-field entry with rva above 0 in the virtual types, a five-field entry
  with rva 0 in the other types, a one-field entry in the unexpanded types, where it is
  just its rva. So a vftable-only entry that no class or structure record merged into is
  in the unexpanded group only.
\<close>

theorem partition_exactly_one:
  assumes run: "run sections_dump globals_dump types_dump = Inr (r, p)"
    and entry: "map_of (types r) n = Some d"
  shows "(len d = 5 \<and> 0 < elem0 d \<longrightarrow>
            map_of (virtual_detailed_types p) n = Some d
            \<and> map_of (detailed_types p) n = None \<and> map_of (unexpanded_types p) n = None)
       \<and> (len d = 5 \<and> elem0 d = 0 \<longrightarrow>
            map_of (detailed_types p) n = Some d
            \<and> map_of (virtual_detailed_types p) n = None \<and> map_of (unexpanded_types p) n = None)
       \<and> (len d = 1 \<longrightarrow>
            map_of (unexpanded_types p) n = Some (Vft (elem0 d))
            \<and> map_of (virtual_detailed_types p) n = None \<and> map_of (detailed_types p) n = None)
       \<and> ((map_of (virtual_detailed_types p) n \<noteq> None
              \<and> map_of (detailed_types p) n = None \<and> map_of (unexpanded_types p) n = None)
          \<or> (map_of (virtual_detailed_types p) n = None
              \<and> map_of (detailed_types p) n \<noteq> None \<and> map_of (unexpanded_types p) n = None)
          \<or> (map_of (virtual_detailed_types p) n = None
              \<and> map_of (detailed_types p) n = None \<and> map_of (unexpanded_types p) n \<noteq> None))"
proof -
  have dist: "distinct (map fst (types r))" by (rule final_catalog_distinct[OF run])
  from run have p: "p = partition_types (types r)"
    by (auto simp add: run_def Let_def split: sum.splits prod.splits)
  show ?thesis
    using entry
    by (cases d)
       (simp_all add: p partition_types_def partition_loop_virtual[OF dist]
          partition_loop_detailed[OF dist] partition_loop_unexpanded[OF dist])
qed

lemma run_foo_bar_baz:
  "run sections_text globals_foo_bar_text types_foo_baz_text =
     Inr (\<lparr>type_positions = [(0x1001, 19), (0x1005, 183)], fwrd = [], content = pointer_header,
           content_pos = 346,
           types = [(''Foo'', Full 0x1020 0x1001 0x5 ''.?AUFoo@@'' 16), (''Bar'', Vft 0x1040),
                    (''Baz'', Full 0 0x1005 0x9 ''.?AUBaz@@'' 8)],
           printed = []\<rparr>,
          \<lparr>detailed_types = [(''Baz'', Full 0 0x1005 0x9 ''.?AUBaz@@'' 8)],
           virtual_detailed_types = [(''Foo'', Full 0x1020 0x1001 0x5 ''.?AUFoo@@'' 16)],
           unexpanded_types = [(''Bar'', Vft 0x1040)]\<rparr>)"
  by (simp add: run_def eval_sections eval_globals_foo_bar eval_types_foo_baz partition_types_def)

theorem partition_exactly_one_witness:
  "map_of (unexpanded_types (snd (projr (run sections_text globals_foo_bar_text types_foo_baz_text))))
     ''Bar'' = Some (Vft 0x1040)
   \<and> map_of (virtual_detailed_types (snd (projr (run sections_text globals_foo_bar_text types_foo_baz_text))))
     ''Bar'' = None
   \<and> map_of (detailed_types (snd (projr (run sections_text globals_foo_bar_text types_foo_baz_text))))
     ''Bar'' = None"
proof -
  let ?r = "\<lparr>type_positions = [(0x1001, 19), (0x1005, 183)], fwrd = [], content = pointer_header,
           content_pos = 346,
           types = [(''Foo'', Full 0x1020 0x1001 0x5 ''.?AUFoo@@'' 16), (''Bar'', Vft 0x1040),
                    (''Baz'', Full 0 0x1005 0x9 ''.?AUBaz@@'' 8)],
           printed = []\<rparr>"
  have e: "map_of (types ?r) ''Bar'' = Some (Vft 0x1040)" by simp
  from partition_exactly_one[OF run_foo_bar_baz e]
  show ?thesis by (simp add: run_foo_bar_baz)
qed

end
